theory Spec2Isabelle
  imports Complex_Main "HOL-Library.Word" "HOL-Library.Product_Lexorder" "HOL-Library.AList"
begin

unbundle bit_operations_syntax

section \<open>Samples\<close>

text \<open>
  The query processor of Akumuli (\<^verbatim>\<open>akumuli.cpp\<close>, namespace \<^verbatim>\<open>Akumuli::QP\<close>) is a chain
  of nodes; every node consumes \<^verbatim>\<open>aku_Sample\<close> values and hands samples to its successor
  \<^verbatim>\<open>next_\<close>.  Identifiers and timestamps are unsigned 64-bit integers.  A \<^verbatim>\<open>double\<close> is
  modelled by the real number it denotes: rounding, infinities and NaN are outside the
  model, and every concrete value used below is a small dyadic number, on which binary64
  arithmetic is exact.  The member names of the source end in an underscore
  (\<^verbatim>\<open>samples_\<close>, \<^verbatim>\<open>step_\<close>); such names are not identifiers of Isabelle, so the
  underscore is dropped.
\<close>

type_synonym aku_ParamId = "64 word"
type_synonym aku_Timestamp = "64 word"
type_synonym double = real

text \<open>
  Modelled from the spec: \<^verbatim>\<open>aku_Sample\<close> and \<^verbatim>\<open>aku_PData\<close> are declared in \<^verbatim>\<open>akumuli_def.h\<close>,
  which is not among the sources; the members are those that the source reads and writes
  (\<^verbatim>\<open>timestamp\<close>, \<^verbatim>\<open>paramid\<close>, \<^verbatim>\<open>payload.type\<close>, \<^verbatim>\<open>payload.value.float64\<close>).  The member
  \<^verbatim>\<open>value\<close> is a union of \<^verbatim>\<open>float64\<close> and a blob range; \<open>float64\<close> is what the code reads
  through \<^verbatim>\<open>payload.value.float64\<close>, whatever the union was written through.  The member
  \<^verbatim>\<open>type\<close> is called \<open>ptype\<close>.
\<close>

record aku_PData =
  float64 :: double
  ptype :: "16 word"

record aku_Sample =
  timestamp :: aku_Timestamp
  paramid :: aku_ParamId
  payload :: aku_PData

text \<open>
  Modelled from the spec: the flags of \<^verbatim>\<open>aku_PData::type\<close> and the status codes are
  declared in \<^verbatim>\<open>akumuli_def.h\<close>, which is not among the sources.  The spec names the flags
  \<^verbatim>\<open>EMPTY\<close>, \<^verbatim>\<open>PARAMID_BIT\<close>, \<^verbatim>\<open>FLOAT_BIT\<close> and \<^verbatim>\<open>URGENT\<close> as members of a small bit
  set.  \<^verbatim>\<open>EMPTY\<close> is the value with no bit set: the value-initialised \<^verbatim>\<open>EMPTY_SAMPLE\<close> of
  the source is what \<^verbatim>\<open>GroupByStatement::put\<close> sends as the empty sentinel.
\<close>

definition EMPTY :: "16 word" where
  "EMPTY = 0"

definition PARAMID_BIT :: "16 word" where
  "PARAMID_BIT = 1"

definition TIMESTAMP_BIT :: "16 word" where
  "TIMESTAMP_BIT = 2"

definition FLOAT_BIT :: "16 word" where
  "FLOAT_BIT = 16"

definition BLOB_BIT :: "16 word" where
  "BLOB_BIT = 32"

definition URGENT :: "16 word" where
  "URGENT = 256"

definition AKU_PAYLOAD_FLOAT :: "16 word" where
  "AKU_PAYLOAD_FLOAT = PARAMID_BIT OR TIMESTAMP_BIT OR FLOAT_BIT"

definition AKU_PAYLOAD_BLOB :: "16 word" where
  "AKU_PAYLOAD_BLOB = PARAMID_BIT OR TIMESTAMP_BIT OR BLOB_BIT"

datatype aku_Status = AKU_SUCCESS | AKU_EANOMALY_NEG_VAL | AKU_EOTHER nat

definition AKU_MIN_TIMESTAMP :: aku_Timestamp where
  "AKU_MIN_TIMESTAMP = 0"

text \<open>\<^verbatim>\<open>static aku_Sample EMPTY_SAMPLE = {};\<close> every member is zero.\<close>

definition EMPTY_SAMPLE :: aku_Sample where
  "EMPTY_SAMPLE = \<lparr>timestamp = 0, paramid = 0, payload = \<lparr>float64 = 0, ptype = 0\<rparr>\<rparr>"

text \<open>A float sample \<open>(id, ts, v)\<close> and the empty sentinel at \<open>ts\<close>, as the scenarios write them.\<close>

definition float_sample :: "aku_ParamId \<Rightarrow> aku_Timestamp \<Rightarrow> double \<Rightarrow> aku_Sample" where
  "float_sample pid ts v =
     \<lparr>timestamp = ts, paramid = pid, payload = \<lparr>float64 = v, ptype = AKU_PAYLOAD_FLOAT\<rparr>\<rparr>"

definition sentinel :: "aku_Timestamp \<Rightarrow> aku_Sample" where
  "sentinel ts = EMPTY_SAMPLE\<lparr>timestamp := ts\<rparr>"

section \<open>Nodes\<close>

text \<open>
  Modelled from the spec: the interface \<^verbatim>\<open>Node\<close> is declared in \<^verbatim>\<open>queryprocessor.h\<close>, which is
  not among the sources.  \<^verbatim>\<open>put\<close> returns whether the producer may go on, \<^verbatim>\<open>complete\<close> and
  \<^verbatim>\<open>set_error\<close> return nothing.  A node is given by these three operations on its state
  \<open>'n\<close>; a node that holds a successor has the successor's state inside its own.
\<close>

record 'n Node =
  node_put :: "aku_Sample \<Rightarrow> 'n \<Rightarrow> bool \<times> 'n"
  node_complete :: "'n \<Rightarrow> 'n"
  node_set_error :: "aku_Status \<Rightarrow> 'n \<Rightarrow> 'n"

text \<open>
  The loop \<^verbatim>\<open>for (s : samples) if (!next_->put(s)) return false;\<close> that the flushing
  nodes share: the successor gets the samples in order up to the first one it refuses.
\<close>

fun put_each :: "'n Node \<Rightarrow> aku_Sample list \<Rightarrow> 'n \<Rightarrow> bool \<times> 'n" where
  "put_each nxt [] n = (True, n)"
| "put_each nxt (s # ss) n =
     (case node_put nxt s n of
        (False, n') \<Rightarrow> (False, n')
      | (True, n') \<Rightarrow> put_each nxt ss n')"

text \<open>
  Modelled from the spec: the sink is the caller's implementation of \<^verbatim>\<open>Node\<close> and is not
  among the sources.  This one records every call in order; \<open>sink\<close> accepts every sample,
  \<open>closed_sink\<close> refuses every sample (the spec's "downstream is full/closed").
\<close>

datatype event = EvPut aku_Sample | EvComplete | EvSetError aku_Status

definition sink :: "event list Node" where
  "sink = \<lparr>node_put = (\<lambda>s evs. (True, evs @ [EvPut s])),
           node_complete = (\<lambda>evs. evs @ [EvComplete]),
           node_set_error = (\<lambda>st evs. evs @ [EvSetError st])\<rparr>"


section \<open>Filter by id\<close>

text \<open>\<^verbatim>\<open>FilterByIdNode<Predicate>\<close>: the node has no state of its own.\<close>

definition FilterByIdNode_put ::
  "(aku_ParamId \<Rightarrow> bool) \<Rightarrow> 'n Node \<Rightarrow> aku_Sample \<Rightarrow> 'n \<Rightarrow> bool \<times> 'n" where
  "FilterByIdNode_put op nxt sample n =
     (if ptype (payload sample) = EMPTY then node_put nxt sample n
      else if op (paramid sample) then node_put nxt sample n else (True, n))"

definition FilterByIdNode :: "(aku_ParamId \<Rightarrow> bool) \<Rightarrow> 'n Node \<Rightarrow> 'n Node" where
  "FilterByIdNode op nxt =
     \<lparr>node_put = FilterByIdNode_put op nxt,
      node_complete = node_complete nxt,
      node_set_error = node_set_error nxt\<rparr>"

text \<open>\<^verbatim>\<open>NodeBuilder::make_filter_by_id_list\<close>: the matcher is \<^verbatim>\<open>idset.count(id) > 0\<close>.\<close>

definition make_filter_by_id_list :: "aku_ParamId list \<Rightarrow> 'n Node \<Rightarrow> 'n Node" where
  "make_filter_by_id_list ids nxt = FilterByIdNode (\<lambda>pid. pid \<in> set ids) nxt"

section \<open>Group by time\<close>

record GroupByStatement =
  step :: aku_Timestamp
  first_hit :: bool
  lowerbound :: aku_Timestamp
  upperbound :: aku_Timestamp

text \<open>\<^verbatim>\<open>GroupByStatement::GroupByStatement(aku_Timestamp step)\<close>\<close>

definition GroupByStatement_new :: "aku_Timestamp \<Rightarrow> GroupByStatement" where
  "GroupByStatement_new stp =
     \<lparr>step = stp, first_hit = True,
      lowerbound = AKU_MIN_TIMESTAMP, upperbound = AKU_MIN_TIMESTAMP\<rparr>"

text \<open>The first block of \<^verbatim>\<open>GroupByStatement::put\<close>: the bounds are aligned on the first hit.\<close>

definition align_first_hit :: "aku_Timestamp \<Rightarrow> GroupByStatement \<Rightarrow> GroupByStatement" where
  "align_first_hit ts g =
     (if first_hit g
      then (let aligned = ts div step g * step g
            in g\<lparr>first_hit := False, lowerbound := aligned, upperbound := aligned + step g\<rparr>)
      else g)"

text \<open>
  \<^verbatim>\<open>GroupByStatement::put\<close>.  There is no loop: one call sends at most one sentinel, stamped
  with the upper bound before it is moved.  When the successor refuses the sentinel the
  call returns before the bounds move and before the sample is sent.
\<close>

definition GroupByStatement_put ::
  "'n Node \<Rightarrow> aku_Sample \<Rightarrow> GroupByStatement \<times> 'n \<Rightarrow> bool \<times> GroupByStatement \<times> 'n" where
  "GroupByStatement_put nxt sample gn =
     (case gn of (g, n) \<Rightarrow>
        if step g \<noteq> 0 then
          (let ts = timestamp sample;
               g1 = align_first_hit ts g
           in if ts \<ge> upperbound g1 then
                (case node_put nxt (EMPTY_SAMPLE\<lparr>timestamp := upperbound g1\<rparr>) n of
                   (False, n1) \<Rightarrow> (False, g1, n1)
                 | (True, n1) \<Rightarrow>
                     (case node_put nxt sample n1 of
                        (ok, n2) \<Rightarrow>
                          (ok, g1\<lparr>lowerbound := lowerbound g1 + step g1,
                                   upperbound := upperbound g1 + step g1\<rparr>, n2)))
              else if ts < lowerbound g1 then
                (case node_put nxt (EMPTY_SAMPLE\<lparr>timestamp := upperbound g1\<rparr>) n of
                   (False, n1) \<Rightarrow> (False, g1, n1)
                 | (True, n1) \<Rightarrow>
                     (case node_put nxt sample n1 of
                        (ok, n2) \<Rightarrow>
                          (ok, g1\<lparr>lowerbound := lowerbound g1 - step g1,
                                   upperbound := upperbound g1 - step g1\<rparr>, n2)))
              else (case node_put nxt sample n of (ok, n1) \<Rightarrow> (ok, g1, n1)))
        else (case node_put nxt sample n of (ok, n1) \<Rightarrow> (ok, g, n1)))"

section \<open>Scan query processor\<close>

text \<open>
  \<^verbatim>\<open>ScanQueryProcessor::put\<close> is \<^verbatim>\<open>groupby_.put(sample, *root_node_)\<close> and
  \<^verbatim>\<open>ScanQueryProcessor::stop\<close> is \<^verbatim>\<open>root_node_->complete()\<close>.  The state is the group-by
  statement and the state of the chain under the root node.
\<close>

definition ScanQueryProcessor_put ::
  "'n Node \<Rightarrow> aku_Sample \<Rightarrow> GroupByStatement \<times> 'n \<Rightarrow> bool \<times> GroupByStatement \<times> 'n" where
  "ScanQueryProcessor_put root_node sample gn = GroupByStatement_put root_node sample gn"

definition ScanQueryProcessor_stop ::
  "'n Node \<Rightarrow> GroupByStatement \<times> 'n \<Rightarrow> GroupByStatement \<times> 'n" where
  "ScanQueryProcessor_stop root_node gn = (case gn of (g, n) \<Rightarrow> (g, node_complete root_node n))"

text \<open>
  Modelled from the spec: the producer (the storage cursor, not among the sources) calls
  \<^verbatim>\<open>put\<close> for each sample until one call returns false, and then \<^verbatim>\<open>stop\<close>.
\<close>

fun scan_feed ::
  "'n Node \<Rightarrow> aku_Sample list \<Rightarrow> GroupByStatement \<times> 'n \<Rightarrow> GroupByStatement \<times> 'n" where
  "scan_feed root_node [] gn = gn"
| "scan_feed root_node (s # ss) gn =
     (case ScanQueryProcessor_put root_node s gn of
        (False, gn') \<Rightarrow> gn'
      | (True, gn') \<Rightarrow> scan_feed root_node ss gn')"

definition scan_run :: "'n Node \<Rightarrow> aku_Timestamp \<Rightarrow> aku_Sample list \<Rightarrow> 'n \<Rightarrow> 'n" where
  "scan_run root_node stp samples n =
     snd (ScanQueryProcessor_stop root_node
            (scan_feed root_node samples (GroupByStatement_new stp, n)))"

text \<open>Scenario 1 of the spec: group-by of width 10 over an include-set filter for id 7.\<close>

definition scenario1_input :: "aku_Sample list" where
  "scenario1_input =
     [float_sample 7 3 1, float_sample 8 4 9, float_sample 7 12 2, float_sample 7 25 3]"

definition scenario1_trace :: "event list" where
  "scenario1_trace = scan_run (make_filter_by_id_list [7] sink) 10 scenario1_input []"

section \<open>Reservoir sampling\<close>

text \<open>
  What the source leaves undefined, as values: a node whose \<^verbatim>\<open>put\<close> can run into one of
  these returns \<open>Inl\<close> of it, and \<open>Inr\<close> of its result otherwise.
\<close>

datatype fault =
  DivisionByZero
  | EraseEnd
  | NegativeToUnsigned
  | UnsignedOverflow
  | AssertionFailed

text \<open>A successor that accepts every sample, and the state it reaches on a list of samples.\<close>

definition accepts :: "'n Node \<Rightarrow> bool" where
  "accepts nxt = (\<forall>s n. fst (node_put nxt s n))"

definition deliver :: "'n Node \<Rightarrow> aku_Sample list \<Rightarrow> 'n \<Rightarrow> 'n" where
  "deliver nxt ss n = fold (\<lambda>s m. snd (node_put nxt s m)) ss n"

text \<open>
  Modelled from the spec: \<^verbatim>\<open>Rand\<close>, the type of the member \<^verbatim>\<open>random_\<close>, is declared in
  \<^verbatim>\<open>util.h\<close>, which is not among the sources; the spec calls it a per-node generator.
  \<open>random r i\<close> is the number that the call number \<open>i\<close> of \<^verbatim>\<open>random_()\<close> returns, whatever
  its width, and \<open>random_calls\<close> counts the calls.  The other members of
  \<^verbatim>\<open>RandomSamplingNode\<close> are those of the source.
\<close>

record RandomSamplingNode =
  buffer_size :: "32 word"
  samples :: "aku_Sample list"
  random :: "nat \<Rightarrow> nat"
  random_calls :: nat







section \<open>Sliding windows\<close>

text \<open>
  \<^verbatim>\<open>template<class State> struct SlidingWindow\<close>.  The template parameter is the record of
  the operations that the driver uses: the default constructor, \<^verbatim>\<open>add\<close>, \<^verbatim>\<open>ready\<close>,
  \<^verbatim>\<open>value\<close> and \<^verbatim>\<open>reset\<close>.
\<close>

record 'st State =
  state_new :: "'st"
  state_add :: "aku_Sample \<Rightarrow> 'st \<Rightarrow> 'st"
  state_ready :: "'st \<Rightarrow> bool"
  state_value :: "'st \<Rightarrow> double"
  state_reset :: "'st \<Rightarrow> 'st"

text \<open>
  \<^verbatim>\<open>counters_\<close> is a \<^verbatim>\<open>std::unordered_map\<close>: an association list with one entry per key; the
  order of the list is the order in which the map is traversed, which the source does not
  control.  A new key goes to the end of the list.
\<close>

type_synonym 'st sw_counters = "(aku_ParamId \<times> 'st) list"

text \<open>The sample that \<^verbatim>\<open>average_samples\<close> builds for a ready state.\<close>

definition average_sample :: "'st State \<Rightarrow> aku_Timestamp \<Rightarrow> aku_ParamId \<Rightarrow> 'st \<Rightarrow> aku_Sample" where
  "average_sample ops ts pid st =
     \<lparr>timestamp = ts, paramid = pid,
      payload = \<lparr>float64 = state_value ops st, ptype = AKU_PAYLOAD_FLOAT\<rparr>\<rparr>"

text \<open>
  The loop of \<^verbatim>\<open>SlidingWindow::average_samples\<close>: a ready state is read, reset, and its
  sample handed over; a refusal ends the loop with the states after it untouched.
\<close>

fun average_loop ::
  "'st State \<Rightarrow> 'n Node \<Rightarrow> aku_Timestamp \<Rightarrow> 'st sw_counters \<Rightarrow> 'n
     \<Rightarrow> bool \<times> 'st sw_counters \<times> 'n" where
  "average_loop ops nxt ts [] n = (True, [], n)"
| "average_loop ops nxt ts ((pid, st) # rest) n =
     (if state_ready ops st then
        (case node_put nxt (average_sample ops ts pid st) n of
           (False, n') \<Rightarrow> (False, (pid, state_reset ops st) # rest, n')
         | (True, n') \<Rightarrow>
             (case average_loop ops nxt ts rest n' of
                (ok, rest', n'') \<Rightarrow> (ok, (pid, state_reset ops st) # rest', n'')))
      else
        (case average_loop ops nxt ts rest n of
           (ok, rest', n') \<Rightarrow> (ok, (pid, st) # rest', n')))"

text \<open>
  \<^verbatim>\<open>SlidingWindow::average_samples\<close>: after the loop the node hands over \<^verbatim>\<open>EMPTY_SAMPLE\<close>, the
  static sample of the file, not the sentinel it received.
\<close>

definition SlidingWindow_average_samples ::
  "'st State \<Rightarrow> 'n Node \<Rightarrow> aku_Timestamp \<Rightarrow> 'st sw_counters \<times> 'n
     \<Rightarrow> bool \<times> 'st sw_counters \<times> 'n" where
  "SlidingWindow_average_samples ops nxt ts cn =
     (case cn of (cs, n) \<Rightarrow>
        (case average_loop ops nxt ts cs n of
           (False, cs', n') \<Rightarrow> (False, cs', n')
         | (True, cs', n') \<Rightarrow>
             (case node_put nxt EMPTY_SAMPLE n' of (ok, n'') \<Rightarrow> (ok, cs', n''))))"

text \<open>
  \<^verbatim>\<open>SlidingWindow::put\<close>.  The only test is for the empty sentinel: every other sample,
  float or blob, reaches \<^verbatim>\<open>counters_[sample.paramid]\<close> and \<^verbatim>\<open>state.add(sample)\<close>.
\<close>

definition SlidingWindow_put ::
  "'st State \<Rightarrow> 'n Node \<Rightarrow> aku_Sample \<Rightarrow> 'st sw_counters \<times> 'n
     \<Rightarrow> bool \<times> 'st sw_counters \<times> 'n" where
  "SlidingWindow_put ops nxt sample cn =
     (case cn of (cs, n) \<Rightarrow>
        if ptype (payload sample) = EMPTY
        then SlidingWindow_average_samples ops nxt (timestamp sample) (cs, n)
        else (let state = (case map_of cs (paramid sample) of
                             None \<Rightarrow> state_new ops | Some st \<Rightarrow> st)
              in (True, AList.update (paramid sample) (state_add ops sample state) cs, n)))"

definition SlidingWindow :: "'st State \<Rightarrow> 'n Node \<Rightarrow> ('st sw_counters \<times> 'n) Node" where
  "SlidingWindow ops nxt =
     \<lparr>node_put = SlidingWindow_put ops nxt,
      node_complete = (\<lambda>(cs, n). (cs, node_complete nxt n)),
      node_set_error = (\<lambda>status (cs, n). (cs, node_set_error nxt status n))\<rparr>"

text \<open>
  \<^verbatim>\<open>MovingAverageCounter\<close>; \<^verbatim>\<open>num\<close> is a \<^verbatim>\<open>size_t\<close>.  The driver calls \<^verbatim>\<open>value\<close> on a ready
  state only, where \<^verbatim>\<open>num\<close> is not 0.
\<close>

record MovingAverageCounter =
  acc :: double
  num :: "64 word"

definition MovingAverageCounter_ops :: "MovingAverageCounter State" where
  "MovingAverageCounter_ops =
     \<lparr>state_new = \<lparr>acc = 0, num = 0\<rparr>,
      state_add = (\<lambda>v c. c\<lparr>acc := acc c + float64 (payload v), num := num c + 1\<rparr>),
      state_ready = (\<lambda>c. num c \<noteq> 0),
      state_value = (\<lambda>c. acc c / real (unat (num c))),
      state_reset = (\<lambda>c. c\<lparr>acc := 0, num := 0\<rparr>)\<rparr>"

definition MovingAverage :: "'n Node \<Rightarrow> (MovingAverageCounter sw_counters \<times> 'n) Node" where
  "MovingAverage nxt = SlidingWindow MovingAverageCounter_ops nxt"

text \<open>
  Modelled from the spec: a producer that calls \<^verbatim>\<open>put\<close> of the head of a chain for each
  sample, until one call returns false.
\<close>

fun feed :: "'n Node \<Rightarrow> aku_Sample list \<Rightarrow> 'n \<Rightarrow> 'n" where
  "feed node [] n = n"
| "feed node (s # ss) n =
     (case node_put node s n of
        (False, n') \<Rightarrow> n'
      | (True, n') \<Rightarrow> feed node ss n')"

text \<open>A blob sample \<open>(id, ts)\<close>; \<open>bits\<close> is what its union reads as when read as a double.\<close>

definition blob_sample :: "aku_ParamId \<Rightarrow> aku_Timestamp \<Rightarrow> double \<Rightarrow> aku_Sample" where
  "blob_sample pid ts bits =
     \<lparr>timestamp = ts, paramid = pid, payload = \<lparr>float64 = bits, ptype = AKU_PAYLOAD_BLOB\<rparr>\<rparr>"

section \<open>Anomaly detector\<close>

text \<open>
  Modelled from the spec: \<^verbatim>\<open>AnomalyDetectorIface\<close> is declared in \<^verbatim>\<open>anomalydetector.h\<close>, which
  is not among the sources.  The spec gives the detector three operations, \<^verbatim>\<open>add\<close>,
  \<^verbatim>\<open>is_anomaly_candidate\<close> and \<^verbatim>\<open>move_sliding_window\<close>, on a state that is opaque here.
\<close>

record 'd AnomalyDetectorIface =
  detector_add :: "aku_ParamId \<Rightarrow> double \<Rightarrow> 'd \<Rightarrow> 'd"
  detector_is_anomaly_candidate :: "aku_ParamId \<Rightarrow> 'd \<Rightarrow> bool"
  detector_move_sliding_window :: "'d \<Rightarrow> 'd"

text \<open>
  \<^verbatim>\<open>AnomalyDetector::put\<close>; \<^verbatim>\<open>set_error\<close> of the node is \<^verbatim>\<open>next_->set_error(status)\<close>.  The
  candidate is copied (\<^verbatim>\<open>anomaly = sample\<close>), the copy gets
  \<^verbatim>\<open>anomaly.payload.type |= aku_PData::URGENT\<close>, and the copy is handed over.
\<close>

definition AnomalyDetector_put ::
  "'d AnomalyDetectorIface \<Rightarrow> 'n Node \<Rightarrow> aku_Sample \<Rightarrow> 'd \<times> 'n \<Rightarrow> bool \<times> 'd \<times> 'n" where
  "AnomalyDetector_put det nxt sample dn =
     (case dn of (d, n) \<Rightarrow>
        if ptype (payload sample) = EMPTY then
          (case node_put nxt sample n of
             (ok, n') \<Rightarrow> (ok, detector_move_sliding_window det d, n'))
        else if ptype (payload sample) AND FLOAT_BIT \<noteq> 0 then
          (if float64 (payload sample) < 0
           then (False, d, node_set_error nxt AKU_EANOMALY_NEG_VAL n)
           else (let d' = detector_add det (paramid sample) (float64 (payload sample)) d
                 in if detector_is_anomaly_candidate det (paramid sample) d'
                    then (case node_put nxt
                                 (sample\<lparr>payload :=
                                    (payload sample)\<lparr>ptype := ptype (payload sample) OR URGENT\<rparr>\<rparr>) n of
                            (ok, n') \<Rightarrow> (ok, d', n'))
                    else (True, d', n)))
        else (True, d, n))"

definition AnomalyDetector :: "'d AnomalyDetectorIface \<Rightarrow> 'n Node \<Rightarrow> ('d \<times> 'n) Node" where
  "AnomalyDetector det nxt =
     \<lparr>node_put = AnomalyDetector_put det nxt,
      node_complete = (\<lambda>(d, n). (d, node_complete nxt n)),
      node_set_error = (\<lambda>status (d, n). (d, node_set_error nxt status n))\<rparr>"

text \<open>
  A detector for the examples: it keeps the last value of each series and takes a value
  above 100 for an anomaly.
\<close>

definition threshold_detector :: "(aku_ParamId \<Rightarrow> double) AnomalyDetectorIface" where
  "threshold_detector =
     \<lparr>detector_add = (\<lambda>pid v d. d(pid := v)),
      detector_is_anomaly_candidate = (\<lambda>pid d. 100 < d pid),
      detector_move_sliding_window = (\<lambda>d. d)\<rparr>"

section \<open>Space-Saving\<close>

text \<open>\<^verbatim>\<open>SpaceSaver<weighted>::Item\<close>\<close>

record Item =
  count :: double
  error :: double

text \<open>
  \<^verbatim>\<open>SpaceSaver<weighted>\<close>.  \<^verbatim>\<open>counters_\<close> is an association list, as for the sliding window;
  \<^verbatim>\<open>M\<close> is a \<^verbatim>\<open>size_t\<close>.  The template parameter \<^verbatim>\<open>weighted\<close> is the first argument of the
  operations: false for frequent-items, true for heavy-hitters.
\<close>

record SpaceSaver =
  counters :: "(aku_ParamId \<times> Item) list"
  N :: double
  M :: nat
  P :: double

text \<open>
  The constructor: \<^verbatim>\<open>M(ceil(1.0/error))\<close> converts a double to \<^verbatim>\<open>size_t\<close>, which is defined
  only for a value that fits (after truncation); 1.0/0 is infinite.  The two assertions
  on \<^verbatim>\<open>P\<close> follow; \<open>ndebug\<close> says that the build defines \<^verbatim>\<open>NDEBUG\<close>, which removes them.
\<close>

definition SpaceSaver_new :: "bool \<Rightarrow> double \<Rightarrow> double \<Rightarrow> fault + SpaceSaver" where
  "SpaceSaver_new ndebug err portion =
     (if err = 0 then Inl UnsignedOverflow
      else if \<lceil>1 / err\<rceil> < 0 then Inl NegativeToUnsigned
      else if 2 ^ 64 \<le> \<lceil>1 / err\<rceil> then Inl UnsignedOverflow
      else if \<not> ndebug \<and> \<not> (0 \<le> portion \<and> portion \<le> 1) then Inl AssertionFailed
      else Inr \<lparr>counters = [], N = 0, M = nat \<lceil>1 / err\<rceil>, P = portion\<rparr>)"

text \<open>
  The sample that \<^verbatim>\<open>count\<close> builds for an entry.  The source sets \<^verbatim>\<open>paramid\<close>, the type
  and \<^verbatim>\<open>float64\<close> of a local \<^verbatim>\<open>aku_Sample s\<close> and leaves \<^verbatim>\<open>timestamp\<close> uninitialised:
  \<open>uninit\<close> stands for whatever that member holds.
\<close>

definition count_sample :: "(aku_ParamId \<Rightarrow> aku_Timestamp) \<Rightarrow> aku_ParamId \<times> Item \<Rightarrow> aku_Sample" where
  "count_sample uninit entry =
     \<lparr>timestamp = uninit (fst entry), paramid = fst entry,
      payload = \<lparr>float64 = count (snd entry), ptype = PARAMID_BIT OR FLOAT_BIT\<rparr>\<rparr>"

text \<open>
  The samples of \<^verbatim>\<open>count\<close>, selected and sorted: \<^verbatim>\<open>support < estimate\<close> selects, and
  \<^verbatim>\<open>std::sort\<close> with the comparison \<^verbatim>\<open>lhs.float64 > rhs.float64\<close> orders by descending value.
  \<^verbatim>\<open>std::sort\<close> leaves the order of samples of equal value open; here they keep the order
  of the map.
\<close>

definition count_samples :: "(aku_ParamId \<Rightarrow> aku_Timestamp) \<Rightarrow> SpaceSaver \<Rightarrow> aku_Sample list" where
  "count_samples uninit ss =
     (let support = N ss * P ss
      in sort_key (\<lambda>s. - float64 (payload s))
           (map (count_sample uninit)
              (filter (\<lambda>entry. support < count (snd entry) - error (snd entry)) (counters ss))))"

text \<open>
  \<^verbatim>\<open>SpaceSaver::count\<close>: the map is cleared after the loop that hands the samples over;
  \<^verbatim>\<open>N\<close> is not assigned.
\<close>

definition SpaceSaver_count ::
  "(aku_ParamId \<Rightarrow> aku_Timestamp) \<Rightarrow> 'n Node \<Rightarrow> SpaceSaver \<times> 'n \<Rightarrow> bool \<times> SpaceSaver \<times> 'n" where
  "SpaceSaver_count uninit nxt sn =
     (case sn of (ss, n) \<Rightarrow>
        (case put_each nxt (count_samples uninit ss) n of
           (False, n') \<Rightarrow> (False, ss, n')
         | (True, n') \<Rightarrow> (True, ss\<lparr>counters := []\<rparr>, n')))"

definition SpaceSaver_complete ::
  "(aku_ParamId \<Rightarrow> aku_Timestamp) \<Rightarrow> 'n Node \<Rightarrow> SpaceSaver \<times> 'n \<Rightarrow> SpaceSaver \<times> 'n" where
  "SpaceSaver_complete uninit nxt sn =
     (case SpaceSaver_count uninit nxt sn of (ok, ss', n') \<Rightarrow> (ss', node_complete nxt n'))"

text \<open>
  The search loop of \<^verbatim>\<open>put\<close>.  \<^verbatim>\<open>min\<close> is a \<^verbatim>\<open>size_t\<close> that starts at its greatest value;
  \<^verbatim>\<open>i->second.count < min\<close> compares as doubles and \<^verbatim>\<open>min = i->second.count\<close> truncates the
  double towards zero, which is defined for a count above -1 (the comparison has bounded
  it from above).  \<open>min_iter\<close> is the key of the entry the iterator points to, \<open>None\<close> for
  \<^verbatim>\<open>counters_.end()\<close>.
\<close>

fun find_min ::
  "(aku_ParamId \<times> Item) list \<Rightarrow> nat \<Rightarrow> aku_ParamId option
     \<Rightarrow> fault + (nat \<times> aku_ParamId option)" where
  "find_min [] mn min_iter = Inr (mn, min_iter)"
| "find_min ((k, item) # rest) mn min_iter =
     (if count item < real mn
      then (if count item \<le> - 1 then Inl NegativeToUnsigned
            else find_min rest (nat \<lfloor>count item\<rfloor>) (Some k))
      else find_min rest mn min_iter)"

text \<open>
  \<^verbatim>\<open>SpaceSaver::put\<close>.  \<^verbatim>\<open>counters_.erase(min_iter)\<close> with \<^verbatim>\<open>min_iter == counters_.end()\<close> is
  undefined; it is reached when no count is below the greatest \<^verbatim>\<open>size_t\<close>.
\<close>

definition SpaceSaver_put ::
  "bool \<Rightarrow> (aku_ParamId \<Rightarrow> aku_Timestamp) \<Rightarrow> 'n Node \<Rightarrow> aku_Sample \<Rightarrow> SpaceSaver \<times> 'n
     \<Rightarrow> fault + (bool \<times> SpaceSaver \<times> 'n)" where
  "SpaceSaver_put weighted uninit nxt sample sn =
     (case sn of (ss, n) \<Rightarrow>
        if ptype (payload sample) = EMPTY then Inr (SpaceSaver_count uninit nxt (ss, n))
        else if weighted \<and> ptype (payload sample) AND FLOAT_BIT = 0 then Inr (True, ss, n)
        else
          (let pid = paramid sample;
               weight = (if weighted then float64 (payload sample) else 1)
           in case map_of (counters ss) pid of
                None \<Rightarrow>
                  (if length (counters ss) = M ss then
                     (case find_min (counters ss) (2 ^ 64 - 1) None of
                        Inl e \<Rightarrow> Inl e
                      | Inr (mn, None) \<Rightarrow> Inl EraseEnd
                      | Inr (mn, Some k) \<Rightarrow>
                          Inr (True,
                               ss\<lparr>counters :=
                                    AList.update pid \<lparr>count = weight + real mn, error = real mn\<rparr>
                                      (AList.delete k (counters ss)),
                                  N := N ss + weight\<rparr>, n))
                   else
                     Inr (True,
                          ss\<lparr>counters := AList.update pid \<lparr>count = weight, error = 0\<rparr> (counters ss),
                             N := N ss + weight\<rparr>, n))
              | Some item \<Rightarrow>
                  Inr (True,
                       ss\<lparr>counters := AList.update pid (item\<lparr>count := count item + weight\<rparr>)
                                         (counters ss),
                          N := N ss + weight\<rparr>, n)))"

text \<open>The calls that a node receives, and a run of them from the constructor on.\<close>

datatype call = Put aku_Sample | Complete

definition SpaceSaver_call ::
  "bool \<Rightarrow> (aku_ParamId \<Rightarrow> aku_Timestamp) \<Rightarrow> 'n Node \<Rightarrow> call \<Rightarrow> SpaceSaver \<times> 'n
     \<Rightarrow> fault + (SpaceSaver \<times> 'n)" where
  "SpaceSaver_call weighted uninit nxt c sn =
     (case c of
        Put sample \<Rightarrow>
          (case SpaceSaver_put weighted uninit nxt sample sn of
             Inl e \<Rightarrow> Inl e
           | Inr (ok, sn') \<Rightarrow> Inr sn')
      | Complete \<Rightarrow> Inr (SpaceSaver_complete uninit nxt sn))"

fun SpaceSaver_calls ::
  "bool \<Rightarrow> (aku_ParamId \<Rightarrow> aku_Timestamp) \<Rightarrow> 'n Node \<Rightarrow> call list \<Rightarrow> SpaceSaver \<times> 'n
     \<Rightarrow> fault + (SpaceSaver \<times> 'n)" where
  "SpaceSaver_calls weighted uninit nxt [] sn = Inr sn"
| "SpaceSaver_calls weighted uninit nxt (c # cs) sn =
     (case SpaceSaver_call weighted uninit nxt c sn of
        Inl e \<Rightarrow> Inl e
      | Inr sn' \<Rightarrow> SpaceSaver_calls weighted uninit nxt cs sn')"

definition SpaceSaver_run ::
  "bool \<Rightarrow> (aku_ParamId \<Rightarrow> aku_Timestamp) \<Rightarrow> 'n Node \<Rightarrow> bool \<Rightarrow> double \<Rightarrow> double
     \<Rightarrow> call list \<Rightarrow> 'n \<Rightarrow> fault + (SpaceSaver \<times> 'n)" where
  "SpaceSaver_run weighted uninit nxt ndebug err portion cs n =
     (case SpaceSaver_new ndebug err portion of
        Inl e \<Rightarrow> Inl e
      | Inr ss \<Rightarrow> SpaceSaver_calls weighted uninit nxt cs (ss, n))"

section \<open>Node builder\<close>

text \<open>
  Modelled from the spec: \<^verbatim>\<open>Node::NodeType\<close> is declared in \<^verbatim>\<open>queryprocessor.h\<close>, which is
  not among the sources; these are the tags that the source names (\<^verbatim>\<open>Node::RandomSampler\<close>,
  \<^verbatim>\<open>Node::SpaceSaver\<close>, ...).
\<close>

datatype NodeType =
  Node_RandomSampler
  | Node_MovingAverage
  | Node_MovingMedian
  | Node_SpaceSaver
  | Node_AnomalyDetector
  | Node_Resampler
  | Node_FilterById

text \<open>\<^verbatim>\<open>AnomalyDetector::FcastMethod\<close>\<close>

datatype FcastMethod =
  SMA | EWMA | SMA_SKETCH | EWMA_SKETCH | DOUBLE_HOLT_WINTERS | DOUBLE_HOLT_WINTERS_SKETCH

text \<open>
  What leaves \<^verbatim>\<open>make_sampler\<close> by a \<^verbatim>\<open>throw\<close>: a \<^verbatim>\<open>NodeException\<close> with its tag and message,
  the \<^verbatim>\<open>QueryParserError\<close> of \<^verbatim>\<open>parse_anomaly_detector_type\<close>, or the string literal of
  \<^verbatim>\<open>throw "Not implemented"\<close>.  \<open>Ptree_error\<close> and \<open>Bad_lexical_cast\<close> are the two kinds that
  the \<^verbatim>\<open>catch\<close> clauses of \<^verbatim>\<open>make_sampler\<close> handle.
\<close>

datatype thrown =
  NodeException NodeType string
  | QueryParserError string
  | Thrown_literal string
  | Ptree_error
  | Bad_lexical_cast

text \<open>
  The description: a \<^verbatim>\<open>boost::property_tree::ptree\<close> read from JSON, whose children are
  keys with string data.  \<^verbatim>\<open>ptree.get<std::string>(key)\<close> is the data of the first child
  with the key and throws \<^verbatim>\<open>ptree_bad_path\<close>, a \<^verbatim>\<open>ptree_error\<close>, when there is none.
\<close>

type_synonym ptree = "(string \<times> string) list"

definition ptree_get :: "ptree \<Rightarrow> string \<Rightarrow> thrown + string" where
  "ptree_get pt key = (case map_of pt key of None \<Rightarrow> Inl Ptree_error | Some v \<Rightarrow> Inr v)"

text \<open>
  Modelled from the spec: the conversions of Boost are library code outside the sources.
  \<open>lexical_uint32\<close> and \<open>lexical_double\<close> are \<^verbatim>\<open>boost::lexical_cast\<close> (\<open>None\<close> when it throws
  \<^verbatim>\<open>bad_lexical_cast\<close>); \<open>stream_double\<close>, \<open>stream_bool\<close> and \<open>stream_uint32\<close> are the stream
  translators behind \<^verbatim>\<open>ptree.get<T>\<close> (\<open>None\<close> when the data does not convert, which
  \<^verbatim>\<open>get<T>(key)\<close> reports by \<^verbatim>\<open>ptree_bad_data\<close>, a \<^verbatim>\<open>ptree_error\<close>).
\<close>

record conversions =
  lexical_uint32 :: "string \<Rightarrow> 32 word option"
  lexical_double :: "string \<Rightarrow> double option"
  stream_double :: "string \<Rightarrow> double option"
  stream_bool :: "string \<Rightarrow> bool option"
  stream_uint32 :: "string \<Rightarrow> 32 word option"

definition lexical_cast :: "(string \<Rightarrow> 'a option) \<Rightarrow> string \<Rightarrow> thrown + 'a" where
  "lexical_cast conv s = (case conv s of None \<Rightarrow> Inl Bad_lexical_cast | Some v \<Rightarrow> Inr v)"

text \<open>\<^verbatim>\<open>ptree.get<T>(key)\<close> and \<^verbatim>\<open>ptree.get<T>(key, default)\<close>.\<close>

definition ptree_get_as :: "(string \<Rightarrow> 'a option) \<Rightarrow> ptree \<Rightarrow> string \<Rightarrow> thrown + 'a" where
  "ptree_get_as conv pt key =
     (case map_of pt key of
        None \<Rightarrow> Inl Ptree_error
      | Some s \<Rightarrow> (case conv s of None \<Rightarrow> Inl Ptree_error | Some v \<Rightarrow> Inr v))"

definition ptree_get_default :: "(string \<Rightarrow> 'a option) \<Rightarrow> ptree \<Rightarrow> string \<Rightarrow> 'a \<Rightarrow> 'a" where
  "ptree_get_default conv pt key dflt =
     (case map_of pt key of
        None \<Rightarrow> dflt
      | Some s \<Rightarrow> (case conv s of None \<Rightarrow> dflt | Some v \<Rightarrow> v))"

text \<open>The data under \<open>key\<close> is absent or does not convert: \<^verbatim>\<open>get<T>(key)\<close> throws.\<close>

definition absent_or_bad :: "(string \<Rightarrow> 'a option) \<Rightarrow> ptree \<Rightarrow> string \<Rightarrow> bool" where
  "absent_or_bad conv pt key =
     (case map_of pt key of None \<Rightarrow> True | Some s \<Rightarrow> conv s = None)"

text \<open>Sequencing of steps that may throw: the first exception ends the block.\<close>

definition and_then :: "thrown + 'a \<Rightarrow> ('a \<Rightarrow> thrown + 'b) \<Rightarrow> thrown + 'b" where
  "and_then r f = (case r of Inl ex \<Rightarrow> Inl ex | Inr v \<Rightarrow> f v)"

text \<open>
  What \<^verbatim>\<open>make_sampler\<close> returns: the node it constructs with \<^verbatim>\<open>std::make_shared\<close>, given by
  the arguments of the constructor (the successor apart).
\<close>

datatype sampler =
  New_RandomSamplingNode "32 word"
  | New_MovingAverage
  | New_MovingMedian
  | New_SpaceSaver bool double double
  | New_AnomalyDetector "32 word" "32 word" double "32 word" FcastMethod

text \<open>\<^verbatim>\<open>parse_anomaly_detector_type\<close>\<close>

definition parse_anomaly_detector_type :: "conversions \<Rightarrow> ptree \<Rightarrow> thrown + FcastMethod" where
  "parse_anomaly_detector_type cv pt =
     and_then (ptree_get_as (stream_bool cv) pt ''approx'') (\<lambda>approx.
     and_then (ptree_get pt ''method'') (\<lambda>name.
       if name = ''ewma'' then Inr (if approx then EWMA_SKETCH else EWMA)
       else if name = ''sma'' then Inr (if approx then SMA_SKETCH else SMA)
       else if name = ''double-hw''
       then Inr (if approx then DOUBLE_HOLT_WINTERS_SKETCH else DOUBLE_HOLT_WINTERS)
       else Inl (QueryParserError ''Unknown forecasting method'')))"

text \<open>
  The \<^verbatim>\<open>try\<close> block of \<^verbatim>\<open>make_sampler\<close>.  Every method that
  \<^verbatim>\<open>parse_anomaly_detector_type\<close> returns is in one of the sets \<^verbatim>\<open>SLIDING_WINDOW\<close> and
  \<^verbatim>\<open>HOLT_WINTERS\<close>.
\<close>

definition make_sampler_body :: "conversions \<Rightarrow> ptree \<Rightarrow> thrown + sampler" where
  "make_sampler_body cv pt =
     and_then (ptree_get pt ''name'') (\<lambda>name.
       if name = ''reservoir'' then
         and_then (ptree_get pt ''size'') (\<lambda>size.
         and_then (lexical_cast (lexical_uint32 cv) size) (\<lambda>nsize.
           Inr (New_RandomSamplingNode nsize)))
       else if name = ''moving-average'' then Inr New_MovingAverage
       else if name = ''moving-median'' then Inr New_MovingMedian
       else if name = ''frequent-items'' then
         and_then (ptree_get pt ''error'') (\<lambda>serror.
         and_then (ptree_get pt ''portion'') (\<lambda>sportion.
         and_then (lexical_cast (lexical_double cv) serror) (\<lambda>err.
         and_then (lexical_cast (lexical_double cv) sportion) (\<lambda>portion.
           Inr (New_SpaceSaver False err portion)))))
       else if name = ''heavy-hitters'' then
         and_then (ptree_get pt ''error'') (\<lambda>serror.
         and_then (ptree_get pt ''portion'') (\<lambda>sportion.
         and_then (lexical_cast (lexical_double cv) serror) (\<lambda>err.
         and_then (lexical_cast (lexical_double cv) sportion) (\<lambda>portion.
           Inr (New_SpaceSaver True err portion)))))
       else if name = ''anomaly-detector'' then
         and_then (ptree_get_as (stream_double cv) pt ''threshold'') (\<lambda>threshold.
         and_then (parse_anomaly_detector_type cv pt) (\<lambda>method.
           if method \<in> {SMA, SMA_SKETCH, EWMA, EWMA_SKETCH} then
             (let bits = ptree_get_default (stream_uint32 cv) pt ''bits'' 10;
                  hashes = ptree_get_default (stream_uint32 cv) pt ''hashes'' 3
              in and_then (ptree_get_as (stream_uint32 cv) pt ''window'') (\<lambda>window.
                   Inr (New_AnomalyDetector hashes bits threshold window method)))
           else Inl (Thrown_literal ''Not implemented'')))
       else Inl (NodeException Node_RandomSampler
                   ''invalid sampler description, unknown algorithm''))"

text \<open>\<^verbatim>\<open>NodeBuilder::make_sampler\<close>: the block and its two \<^verbatim>\<open>catch\<close> clauses.\<close>

definition make_sampler :: "conversions \<Rightarrow> ptree \<Rightarrow> thrown + sampler" where
  "make_sampler cv pt =
     (case make_sampler_body cv pt of
        Inl Ptree_error \<Rightarrow> Inl (NodeException Node_RandomSampler ''invalid sampler description'')
      | Inl Bad_lexical_cast \<Rightarrow>
          Inl (NodeException Node_RandomSampler
                 ''invalid sampler description, valid integer expected'')
      | Inl ex \<Rightarrow> Inl ex
      | Inr node \<Rightarrow> Inr node)"

text \<open>The tag that a node of the named kind returns from \<^verbatim>\<open>get_type\<close>.\<close>

definition tag_of_name :: "string \<Rightarrow> NodeType option" where
  "tag_of_name name =
     (if name = ''reservoir'' then Some Node_RandomSampler
      else if name = ''moving-average'' then Some Node_MovingAverage
      else if name = ''moving-median'' then Some Node_MovingMedian
      else if name = ''frequent-items'' then Some Node_SpaceSaver
      else if name = ''heavy-hitters'' then Some Node_SpaceSaver
      else if name = ''anomaly-detector'' then Some Node_AnomalyDetector
      else None)"

text \<open>
  Conversions for the examples: they convert the strings that the examples use and no
  other.
\<close>

definition example_conversions :: conversions where
  "example_conversions =
     \<lparr>lexical_uint32 = (\<lambda>s. if s = ''1000'' then Some 1000 else None),
      lexical_double = (\<lambda>s. if s = ''0.01'' then Some (1 / 100)
                             else if s = ''0.1'' then Some (1 / 10) else None),
      stream_double = (\<lambda>s. if s = ''0.95'' then Some (95 / 100) else None),
      stream_bool = (\<lambda>s. if s = ''true'' then Some True
                          else if s = ''false'' then Some False else None),
      stream_uint32 = (\<lambda>s. if s = ''20'' then Some 20 else None)\<rparr>"

section \<open>Inputs of the examples\<close>



text \<open>Scenario 2 of the spec: a moving average over two series, then the sentinel at 10.\<close>

definition scenario2_input :: "aku_Sample list" where
  "scenario2_input = [float_sample 1 1 2, float_sample 1 2 4, float_sample 2 3 10, sentinel 10]"

text \<open>A Space-Saving node in the middle of a bucket: the threshold is 9 / 4.\<close>

definition bucket_example :: SpaceSaver where
  "bucket_example =
     \<lparr>counters = [(1, \<lparr>count = 3, error = 0\<rparr>), (2, \<lparr>count = 5, error = 0\<rparr>),
                  (3, \<lparr>count = 1, error = 0\<rparr>)],
      N = 9, M = 4, P = 1 / 4\<rparr>"

section \<open>Scenario 1: filter and group-by\<close>

lemma scenario1_steps:
  "scan_feed (make_filter_by_id_list [7] sink) scenario1_input (GroupByStatement_new 10, []) =
     (\<lparr>step = 10, first_hit = False, lowerbound = 20, upperbound = 30\<rparr>,
      [EvPut (float_sample 7 3 1), EvPut (sentinel 10), EvPut (float_sample 7 12 2),
       EvPut (sentinel 20), EvPut (float_sample 7 25 3)])"
  by (simp add: scenario1_input_def ScanQueryProcessor_put_def GroupByStatement_put_def
      GroupByStatement_new_def align_first_hit_def AKU_MIN_TIMESTAMP_def
      make_filter_by_id_list_def FilterByIdNode_def FilterByIdNode_put_def sink_def
      float_sample_def sentinel_def EMPTY_SAMPLE_def EMPTY_def AKU_PAYLOAD_FLOAT_def
      PARAMID_BIT_def TIMESTAMP_BIT_def FLOAT_BIT_def)

text \<open>
  C3, as the code runs it.  The sample at time 25 crosses the bound 20 only: one sentinel,
  stamped 20, precedes it, and the bounds become [20, 30).  No sentinel is stamped 30.
\<close>

theorem scenario1_filter_groupby:
  "scenario1_trace =
     [EvPut (float_sample 7 3 1), EvPut (sentinel 10), EvPut (float_sample 7 12 2),
      EvPut (sentinel 20), EvPut (float_sample 7 25 3), EvComplete]"
  unfolding scenario1_trace_def scan_run_def scenario1_steps
  by (simp add: ScanQueryProcessor_stop_def make_filter_by_id_list_def FilterByIdNode_def
      sink_def)

text \<open>C3, as the spec states it: the trace with a sentinel stamped 30 is not the trace of the code.\<close>

theorem scenario1_spec_trace_counterexample:
  "scenario1_trace \<noteq>
     [EvPut (float_sample 7 3 1), EvPut (sentinel 10), EvPut (float_sample 7 12 2),
      EvPut (sentinel 20), EvPut (sentinel 30), EvPut (float_sample 7 25 3), EvComplete]"
  unfolding scenario1_trace_def scan_run_def scenario1_steps
  by (simp add: ScanQueryProcessor_stop_def make_filter_by_id_list_def FilterByIdNode_def
      sink_def float_sample_def sentinel_def EMPTY_SAMPLE_def)

section \<open>Successors that accept every sample\<close>

lemma put_each_accepts:
  "accepts nxt \<Longrightarrow> put_each nxt ss n = (True, deliver nxt ss n)"
proof (induction ss arbitrary: n)
  case Nil
  then show ?case by (simp add: deliver_def)
next
  case (Cons s ss)
  from Cons.prems have "fst (node_put nxt s n)" by (simp add: accepts_def)
  then obtain n' where step: "node_put nxt s n = (True, n')"
    by (cases "node_put nxt s n") auto
  with Cons show ?case by (simp add: deliver_def)
qed

text \<open>
  A successor that accepts the samples of \<open>pre\<close>, each in its turn, and then refuses \<open>x\<close>:
  the loop ends with \<open>x\<close>, and the samples after \<open>x\<close> are not handed over.
\<close>

lemma put_each_refused:
  assumes "\<forall>i<length pre. fst (node_put nxt (pre ! i)
                                (fold (\<lambda>s m. snd (node_put nxt s m)) (take i pre) n))"
    and "\<not> fst (node_put nxt x (fold (\<lambda>s m. snd (node_put nxt s m)) pre n))"
  shows "put_each nxt (pre @ x # post) n =
           (False, snd (node_put nxt x (fold (\<lambda>s m. snd (node_put nxt s m)) pre n)))"
  using assms
proof (induction pre arbitrary: n)
  case Nil
  then show ?case by (cases "node_put nxt x n") auto
next
  case (Cons p ps)
  from Cons.prems(1) have "fst (node_put nxt p n)" by fastforce
  then obtain n1 where step: "node_put nxt p n = (True, n1)"
    by (cases "node_put nxt p n") auto
  have a: "\<forall>i<length ps. fst (node_put nxt (ps ! i)
                                (fold (\<lambda>s m. snd (node_put nxt s m)) (take i ps) n1))"
  proof (intro allI impI)
    fix i assume "i < length ps"
    then have "Suc i < length (p # ps)" by simp
    with Cons.prems(1)
    have "fst (node_put nxt ((p # ps) ! Suc i)
                 (fold (\<lambda>s m. snd (node_put nxt s m)) (take (Suc i) (p # ps)) n))"
      by blast
    with step show "fst (node_put nxt (ps ! i)
                                (fold (\<lambda>s m. snd (node_put nxt s m)) (take i ps) n1))"
      by simp
  qed
  have b: "\<not> fst (node_put nxt x (fold (\<lambda>s m. snd (node_put nxt s m)) ps n1))"
    using Cons.prems(2) step by simp
  from Cons.IH [OF a b] step show ?case by simp
qed

lemma deliver_sink: "deliver sink ss evs = evs @ map EvPut ss"
  by (induction ss arbitrary: evs) (simp_all add: deliver_def sink_def)

lemma node_complete_sink: "node_complete sink evs = evs @ [EvComplete]"
  by (simp add: sink_def)

lemma accepts_sink: "accepts sink"
  by (simp add: accepts_def sink_def)

lemma float_sample_not_EMPTY: "ptype (payload (float_sample pid ts v)) \<noteq> EMPTY"
  by (simp add: float_sample_def EMPTY_def AKU_PAYLOAD_FLOAT_def PARAMID_BIT_def
      TIMESTAMP_BIT_def FLOAT_BIT_def)

lemma sentinel_EMPTY: "ptype (payload (sentinel ts)) = EMPTY"
  by (simp add: sentinel_def EMPTY_SAMPLE_def EMPTY_def)

section \<open>Reservoir sampling: the buffer and its flush\<close>









section \<open>Reservoir sampling: a full buffer\<close>




section \<open>Sliding windows: the sentinel and blobs\<close>

text \<open>
  With a successor that accepts every sample, a sentinel makes the node hand over one
  sample for each ready state, in the order of the map, and then \<^verbatim>\<open>EMPTY_SAMPLE\<close>; the
  ready states are reset.
\<close>

lemma average_loop_accepts:
  "accepts nxt \<Longrightarrow>
   average_loop ops nxt ts cs n =
     (True,
      map (\<lambda>(pid, st). (pid, if state_ready ops st then state_reset ops st else st)) cs,
      deliver nxt (map (\<lambda>(pid, st). average_sample ops ts pid st)
                     (filter (\<lambda>(pid, st). state_ready ops st) cs)) n)"
proof (induction cs arbitrary: n)
  case Nil
  then show ?case by (simp add: deliver_def)
next
  case (Cons c cs)
  obtain pid st where c: "c = (pid, st)" by (cases c)
  show ?case
  proof (cases "state_ready ops st")
    case True
    from Cons.prems have "fst (node_put nxt (average_sample ops ts pid st) n)"
      by (simp add: accepts_def)
    then obtain n' where step: "node_put nxt (average_sample ops ts pid st) n = (True, n')"
      by (cases "node_put nxt (average_sample ops ts pid st) n") auto
    with True c Cons show ?thesis by (simp add: deliver_def)
  next
    case False
    with c Cons show ?thesis by simp
  qed
qed

lemma SlidingWindow_sentinel_accepts:
  assumes "accepts nxt" and "ptype (payload e) = EMPTY"
  shows "SlidingWindow_put ops nxt e (cs, n) =
     (True,
      map (\<lambda>(pid, st). (pid, if state_ready ops st then state_reset ops st else st)) cs,
      deliver nxt (map (\<lambda>(pid, st). average_sample ops (timestamp e) pid st)
                     (filter (\<lambda>(pid, st). state_ready ops st) cs) @ [EMPTY_SAMPLE]) n)"
proof -
  let ?out = "map (\<lambda>(pid, st). average_sample ops (timestamp e) pid st)
                     (filter (\<lambda>(pid, st). state_ready ops st) cs)"
  from assms(1) have "fst (node_put nxt EMPTY_SAMPLE (deliver nxt ?out n))"
    by (simp add: accepts_def)
  then obtain n' where step: "node_put nxt EMPTY_SAMPLE (deliver nxt ?out n) = (True, n')"
    by (cases "node_put nxt EMPTY_SAMPLE (deliver nxt ?out n)") auto
  then have "deliver nxt (?out @ [EMPTY_SAMPLE]) n = n'"
    by (simp add: deliver_def)
  with assms step show ?thesis
    by (simp add: SlidingWindow_put_def SlidingWindow_average_samples_def average_loop_accepts)
qed

text \<open>A sample that is not the empty sentinel is added to the state of its series.\<close>

lemma SlidingWindow_put_data:
  "ptype (payload s) \<noteq> EMPTY \<Longrightarrow>
   SlidingWindow_put ops nxt s (cs, n) =
     (True,
      AList.update (paramid s)
        (state_add ops s (case map_of cs (paramid s) of None \<Rightarrow> state_new ops | Some st \<Rightarrow> st)) cs,
      n)"
  by (simp add: SlidingWindow_put_def)

lemma blob_sample_not_EMPTY: "ptype (payload (blob_sample pid ts v)) \<noteq> EMPTY"
  by (simp add: blob_sample_def EMPTY_def AKU_PAYLOAD_BLOB_def PARAMID_BIT_def
      TIMESTAMP_BIT_def BLOB_BIT_def)

lemma blob_sample_no_FLOAT_BIT: "ptype (payload (blob_sample pid ts v)) AND FLOAT_BIT = 0"
  by (simp add: blob_sample_def AKU_PAYLOAD_BLOB_def PARAMID_BIT_def
      TIMESTAMP_BIT_def BLOB_BIT_def FLOAT_BIT_def)

text \<open>
  C1, on the code.  Scenario 2 of the spec: the sink receives the two averages stamped 10,
  and then the sentinel that the node forwards, which is \<^verbatim>\<open>EMPTY_SAMPLE\<close> with timestamp 0 and
  not the sentinel with timestamp 10 that the node received.
\<close>

theorem sliding_window_sentinel_timestamp:
  "feed (MovingAverage sink) scenario2_input ([], []) =
     ([(1, \<lparr>acc = 0, num = 0\<rparr>), (2, \<lparr>acc = 0, num = 0\<rparr>)],
      [EvPut (float_sample 1 10 3), EvPut (float_sample 2 10 10), EvPut (sentinel 0)])
   \<and> sentinel 0 \<noteq> sentinel 10"
  by (simp add: scenario2_input_def MovingAverage_def SlidingWindow_def SlidingWindow_put_def
      SlidingWindow_average_samples_def MovingAverageCounter_ops_def average_sample_def
      sink_def float_sample_def sentinel_def EMPTY_SAMPLE_def EMPTY_def AKU_PAYLOAD_FLOAT_def
      PARAMID_BIT_def TIMESTAMP_BIT_def FLOAT_BIT_def)

text \<open>
  C7, on the code.  A blob sample put into a new moving average creates the state of its
  series with \<^verbatim>\<open>num = 1\<close> and \<^verbatim>\<open>acc\<close> what the union reads as; the next sentinel reports it as
  the average of the bucket.
\<close>

theorem sliding_window_blob_counted:
  "SlidingWindow_put MovingAverageCounter_ops sink (blob_sample 1 5 8) ([], []) =
      (True, [(1, \<lparr>acc = 8, num = 1\<rparr>)], [])
   \<and> feed (MovingAverage sink) [blob_sample 1 5 8, sentinel 10] ([], []) =
      ([(1, \<lparr>acc = 0, num = 0\<rparr>)], [EvPut (float_sample 1 10 8), EvPut (sentinel 0)])"
  by (simp add: MovingAverage_def SlidingWindow_def SlidingWindow_put_def
      SlidingWindow_average_samples_def MovingAverageCounter_ops_def average_sample_def
      sink_def float_sample_def blob_sample_def sentinel_def EMPTY_SAMPLE_def EMPTY_def
      AKU_PAYLOAD_FLOAT_def AKU_PAYLOAD_BLOB_def
      PARAMID_BIT_def TIMESTAMP_BIT_def FLOAT_BIT_def BLOB_BIT_def)

section \<open>Anomaly detector\<close>

lemma urgent_set: "((w :: 16 word) OR URGENT) AND URGENT = URGENT"
  by (simp add: word_ao_absorbs)

text \<open>
  C6.  For a data sample \<open>s\<close> with \<^verbatim>\<open>FLOAT_BIT\<close>: a negative value sends
  \<^verbatim>\<open>set_error(AKU_EANOMALY_NEG_VAL)\<close> to the successor and \<^verbatim>\<open>put\<close> returns false, the detector
  unchanged; a value that is not negative is added to the detector, and then a candidate
  is handed over as \<open>s\<close> itself with \<^verbatim>\<open>URGENT\<close> added to its payload type (timestamp, series
  and value are those of \<open>s\<close>; the result is the successor's), and any other sample is
  dropped: the successor is not called and the result is true.
\<close>

theorem anomaly_detector_put:
  assumes "ptype (payload s) \<noteq> EMPTY" and "ptype (payload s) AND FLOAT_BIT \<noteq> 0"
    and "d' = detector_add det (paramid s) (float64 (payload s)) d"
    and "urgent = \<lparr>timestamp = timestamp s, paramid = paramid s,
                    payload = \<lparr>float64 = float64 (payload s),
                               ptype = ptype (payload s) OR URGENT\<rparr>\<rparr>"
  shows "(float64 (payload s) < 0 \<longrightarrow>
            AnomalyDetector_put det nxt s (d, n) =
              (False, d, node_set_error nxt AKU_EANOMALY_NEG_VAL n))
       \<and> (0 \<le> float64 (payload s) \<and> detector_is_anomaly_candidate det (paramid s) d' \<longrightarrow>
            AnomalyDetector_put det nxt s (d, n) =
              (fst (node_put nxt urgent n), d', snd (node_put nxt urgent n))
            \<and> ptype (payload urgent) AND URGENT = URGENT)
       \<and> (0 \<le> float64 (payload s) \<and> \<not> detector_is_anomaly_candidate det (paramid s) d' \<longrightarrow>
            AnomalyDetector_put det nxt s (d, n) = (True, d', n))"
proof -
  have u: "s\<lparr>payload := (payload s)\<lparr>ptype := ptype (payload s) OR URGENT\<rparr>\<rparr> = urgent"
    using assms(4) by simp
  have flag: "ptype (payload urgent) AND URGENT = URGENT"
    using assms(4) by (simp add: urgent_set)
  from assms(1,2,3) flag show ?thesis
    by (auto simp: AnomalyDetector_put_def Let_def u split: prod.splits)
qed

text \<open>
  The three cases on the recording sink, with a detector that takes a value above 100 for
  an anomaly: the sink sees the error, the sample with type
  \<^verbatim>\<open>PARAMID_BIT|TIMESTAMP_BIT|FLOAT_BIT|URGENT\<close> (275), or nothing.
\<close>

theorem anomaly_detector_put_witness:
  "AnomalyDetector_put threshold_detector sink (float_sample 1 5 (- 2)) (\<lambda>k. 0, []) =
     (False, \<lambda>k. 0, [EvSetError AKU_EANOMALY_NEG_VAL])
   \<and> AnomalyDetector_put threshold_detector sink (float_sample 1 5 150) (\<lambda>k. 0, []) =
     (True, (\<lambda>k. 0)(1 := 150),
      [EvPut \<lparr>timestamp = 5, paramid = 1, payload = \<lparr>float64 = 150, ptype = 275\<rparr>\<rparr>])
   \<and> AnomalyDetector_put threshold_detector sink (float_sample 1 5 7) (\<lambda>k. 0, []) =
     (True, (\<lambda>k. 0)(1 := 7), [])"
proof -
  have f: "ptype (payload (float_sample 1 5 v)) AND FLOAT_BIT \<noteq> 0" for v
    by (simp add: float_sample_def AKU_PAYLOAD_FLOAT_def PARAMID_BIT_def TIMESTAMP_BIT_def
        FLOAT_BIT_def)
  have e: "ptype (payload (float_sample 1 5 v)) \<noteq> EMPTY" for v
    by (rule float_sample_not_EMPTY)
  have v: "float64 (payload (float_sample 1 5 v)) = v" "paramid (float_sample 1 5 v) = 1"
    "timestamp (float_sample 1 5 v) = 5" for v
    by (simp_all add: float_sample_def)
  have ty: "ptype (payload (float_sample 1 5 v)) OR URGENT = 275" for v
    by (simp add: float_sample_def AKU_PAYLOAD_FLOAT_def PARAMID_BIT_def TIMESTAMP_BIT_def
        FLOAT_BIT_def URGENT_def)
  have a: "detector_add threshold_detector 1 v (\<lambda>k. 0) = (\<lambda>k. 0)(1 := v)" for v
    by (simp add: threshold_detector_def)
  have c: "detector_is_anomaly_candidate threshold_detector 1 ((\<lambda>k. 0)(1 := v)) = (100 < v)" for v
    by (simp add: threshold_detector_def)
  have p: "node_put sink x [] = (True, [EvPut x])" for x
    by (simp add: sink_def)
  have s: "node_set_error sink st [] = [EvSetError st]" for st
    by (simp add: sink_def)
  from anomaly_detector_put [where s = "float_sample 1 5 (- 2)" and det = threshold_detector
        and d = "\<lambda>k. 0" and nxt = sink and n = "[]", OF e f refl refl]
    anomaly_detector_put [where s = "float_sample 1 5 150" and det = threshold_detector
        and d = "\<lambda>k. 0" and nxt = sink and n = "[]", OF e f refl refl]
    anomaly_detector_put [where s = "float_sample 1 5 7" and det = threshold_detector
        and d = "\<lambda>k. 0" and nxt = sink and n = "[]", OF e f refl refl]
  show ?thesis by (simp add: v ty a c p s)
qed

section \<open>Space-Saving: the bound on the map\<close>

lemma find_min_key:
  "find_min cs mn it = Inr (mn', Some k) \<Longrightarrow> it = Some k \<or> k \<in> fst ` set cs"
proof (induction cs arbitrary: mn it)
  case Nil
  then show ?case by simp
next
  case (Cons c cs)
  obtain k' item where c: "c = (k', item)" by (cases c)
  show ?case
  proof (cases "count item < real mn")
    case True
    with Cons.prems c have ok: "\<not> count item \<le> - 1"
      and rec: "find_min cs (nat \<lfloor>count item\<rfloor>) (Some k') = Inr (mn', Some k)"
      by (auto split: if_splits)
    from Cons.IH [OF rec] c show ?thesis by auto
  next
    case False
    with Cons.prems c have "find_min cs mn it = Inr (mn', Some k)" by simp
    from Cons.IH [OF this] show ?thesis by auto
  qed
qed

lemma length_delete_less:
  "k \<in> fst ` set cs \<Longrightarrow> length (AList.delete k cs) < length cs"
proof -
  assume "k \<in> fst ` set cs"
  then obtain v where "(k, v) \<in> set cs" by auto
  then have "length (filter (\<lambda>(k', _). k \<noteq> k') cs) < length cs"
    by (intro length_filter_less [of "(k, v)"]) auto
  then show ?thesis by (simp add: AList.delete_eq)
qed

lemma length_AList_update:
  "length (AList.update k v al) = (if k \<in> fst ` set al then length al else Suc (length al))"
  by (induction al) auto

lemma map_of_None_delete:
  "map_of cs pid = None \<Longrightarrow> pid \<notin> fst ` set (AList.delete k cs)"
  by (auto simp: AList.delete_eq map_of_eq_None_iff)

lemma SpaceSaver_count_bounded:
  assumes "SpaceSaver_count uninit nxt (ss, n) = (ok, ss', n')"
    and "length (counters ss) \<le> M ss" and "distinct (map fst (counters ss))"
  shows "M ss' = M ss \<and> length (counters ss') \<le> M ss' \<and> distinct (map fst (counters ss'))"
  using assms by (auto simp: SpaceSaver_count_def split: prod.splits bool.splits)

lemma SpaceSaver_put_bounded:
  assumes "SpaceSaver_put weighted uninit nxt s (ss, n) = Inr (ok, ss', n')"
    and "length (counters ss) \<le> M ss" and "distinct (map fst (counters ss))"
  shows "M ss' = M ss \<and> length (counters ss') \<le> M ss' \<and> distinct (map fst (counters ss'))"
proof (cases "ptype (payload s) = EMPTY")
  case True
  with assms(1) have "SpaceSaver_count uninit nxt (ss, n) = (ok, ss', n')"
    by (simp add: SpaceSaver_put_def)
  from SpaceSaver_count_bounded [OF this assms(2,3)] show ?thesis .
next
  case data: False
  show ?thesis
  proof (cases "weighted \<and> ptype (payload s) AND FLOAT_BIT = 0")
    case True
    with data assms show ?thesis by (auto simp: SpaceSaver_put_def)
  next
    case counted: False
    show ?thesis
    proof (cases "map_of (counters ss) (paramid s)")
      case (Some item)
      then have present: "paramid s \<in> fst ` set (counters ss)"
        by (metis map_of_eq_None_iff option.distinct(1))
      from Some data counted assms(1)
      have "ss' = ss\<lparr>counters :=
                AList.update (paramid s)
                  (item\<lparr>count := count item + (if weighted then float64 (payload s) else 1)\<rparr>)
                  (counters ss),
              N := N ss + (if weighted then float64 (payload s) else 1)\<rparr>"
        by (auto simp: SpaceSaver_put_def Let_def)
      with present assms(2,3) show ?thesis
        by (simp add: length_AList_update distinct_update)
    next
      case None
      then have absent: "paramid s \<notin> fst ` set (counters ss)"
        by (simp add: map_of_eq_None_iff)
      show ?thesis
      proof (cases "length (counters ss) = M ss")
        case False
        with None absent data counted assms show ?thesis
          by (auto simp: SpaceSaver_put_def Let_def length_AList_update distinct_update)
      next
        case True
        with None data counted assms(1) obtain mn k where
          fm: "find_min (counters ss) (2 ^ 64 - 1) None = Inr (mn, Some k)"
          and ss': "ss' = ss\<lparr>counters :=
                AList.update (paramid s)
                  \<lparr>count = (if weighted then float64 (payload s) else 1) + real mn, error = real mn\<rparr>
                  (AList.delete k (counters ss)),
              N := N ss + (if weighted then float64 (payload s) else 1)\<rparr>"
          by (auto simp: SpaceSaver_put_def Let_def split: sum.splits option.splits)
        from find_min_key [OF fm] have "k \<in> fst ` set (counters ss)" by simp
        then have "length (AList.delete k (counters ss)) < length (counters ss)"
          by (rule length_delete_less)
        moreover have "paramid s \<notin> fst ` set (AList.delete k (counters ss))"
          using None by (rule map_of_None_delete)
        ultimately show ?thesis using ss' assms(2,3)
          by (simp add: length_AList_update distinct_update distinct_delete)
      qed
    qed
  qed
qed

lemma SpaceSaver_call_bounded:
  assumes "SpaceSaver_call weighted uninit nxt c (ss, n) = Inr (ss', n')"
    and "length (counters ss) \<le> M ss" and "distinct (map fst (counters ss))"
  shows "M ss' = M ss \<and> length (counters ss') \<le> M ss' \<and> distinct (map fst (counters ss'))"
proof (cases c)
  case (Put s)
  with assms(1) obtain ok where
    "SpaceSaver_put weighted uninit nxt s (ss, n) = Inr (ok, ss', n')"
    by (auto simp: SpaceSaver_call_def split: sum.splits)
  from SpaceSaver_put_bounded [OF this assms(2,3)] show ?thesis .
next
  case Complete
  with assms(1) obtain ok nc where
    "SpaceSaver_count uninit nxt (ss, n) = (ok, ss', nc)"
    by (auto simp: SpaceSaver_call_def SpaceSaver_complete_def split: prod.splits)
  from SpaceSaver_count_bounded [OF this assms(2,3)] show ?thesis .
qed

lemma SpaceSaver_calls_bounded:
  assumes "SpaceSaver_calls weighted uninit nxt cs (ss, n) = Inr (ss', n')"
    and "length (counters ss) \<le> M ss" and "distinct (map fst (counters ss))"
  shows "M ss' = M ss \<and> length (counters ss') \<le> M ss' \<and> distinct (map fst (counters ss'))"
  using assms
proof (induction cs arbitrary: ss n)
  case Nil
  then show ?case by simp
next
  case (Cons c cs)
  from Cons.prems(1) obtain ss1 n1 where
    c1: "SpaceSaver_call weighted uninit nxt c (ss, n) = Inr (ss1, n1)"
    and rest: "SpaceSaver_calls weighted uninit nxt cs (ss1, n1) = Inr (ss', n')"
    by (auto split: sum.splits)
  from SpaceSaver_call_bounded [OF c1 Cons.prems(2,3)]
  have i1: "M ss1 = M ss" "length (counters ss1) \<le> M ss1" "distinct (map fst (counters ss1))"
    by simp_all
  from Cons.IH [OF rest i1(2,3)] i1(1) show ?case by simp
qed

text \<open>
  What a \<^verbatim>\<open>put\<close> that counts its sample does to the map, when the map holds at most \<open>M\<close>
  entries: it increments the entry of the series, or inserts into a map of fewer than \<open>M\<close>
  entries, or erases the entry that the search has found and inserts then.
\<close>

lemma SpaceSaver_put_cases:
  assumes "SpaceSaver_put weighted uninit nxt s (ss, n) = Inr (ok, ss', n')"
    and "ptype (payload s) \<noteq> EMPTY"
    and "\<not> (weighted \<and> ptype (payload s) AND FLOAT_BIT = 0)"
    and "length (counters ss) \<le> M ss"
    and "w = (if weighted then float64 (payload s) else 1)"
  shows "ok \<and> n' = n \<and> N ss' = N ss + w
     \<and> ((\<exists>item. map_of (counters ss) (paramid s) = Some item
            \<and> counters ss' =
                AList.update (paramid s) (item\<lparr>count := count item + w\<rparr>) (counters ss))
         \<or> (map_of (counters ss) (paramid s) = None \<and> length (counters ss) < M ss
            \<and> counters ss' =
                AList.update (paramid s) \<lparr>count = w, error = 0\<rparr> (counters ss))
         \<or> (map_of (counters ss) (paramid s) = None \<and> length (counters ss) = M ss
            \<and> (\<exists>k mn. k \<in> fst ` set (counters ss)
                  \<and> find_min (counters ss) (2 ^ 64 - 1) None = Inr (mn, Some k)
                  \<and> counters ss' =
                      AList.update (paramid s) \<lparr>count = w + real mn, error = real mn\<rparr>
                        (AList.delete k (counters ss)))))"
proof (cases "map_of (counters ss) (paramid s)")
  case (Some item)
  with assms show ?thesis by (auto simp: SpaceSaver_put_def Let_def)
next
  case None
  show ?thesis
  proof (cases "length (counters ss) = M ss")
    case False
    with None assms show ?thesis by (auto simp: SpaceSaver_put_def Let_def)
  next
    case True
    with None assms(1,2,3,5) obtain mn k where
      fm: "find_min (counters ss) (2 ^ 64 - 1) None = Inr (mn, Some k)"
      and r: "ok" "n' = n"
        "ss' = ss\<lparr>counters :=
                AList.update (paramid s) \<lparr>count = w + real mn, error = real mn\<rparr>
                  (AList.delete k (counters ss)),
              N := N ss + w\<rparr>"
      by (auto simp: SpaceSaver_put_def Let_def split: sum.splits option.splits)
    from find_min_key [OF fm] have "k \<in> fst ` set (counters ss)" by simp
    with fm r None True show ?thesis by auto
  qed
qed

text \<open>
  C8.  After any run of \<^verbatim>\<open>put\<close> and \<^verbatim>\<open>complete\<close> calls on a node constructed with error
  \<open>err\<close>, the capacity is \<open>\<lceil>1 / err\<rceil>\<close>, the map holds at most that many entries, and
  its keys are distinct.
\<close>

theorem space_saver_bounded:
  assumes "SpaceSaver_run weighted uninit nxt ndebug err portion cs n = Inr (ss, n')"
  shows "M ss = nat \<lceil>1 / err\<rceil> \<and> length (counters ss) \<le> M ss
         \<and> distinct (map fst (counters ss))"
proof -
  from assms obtain s0 where
    new: "SpaceSaver_new ndebug err portion = Inr s0"
    and run: "SpaceSaver_calls weighted uninit nxt cs (s0, n) = Inr (ss, n')"
    by (auto simp: SpaceSaver_run_def split: sum.splits)
  from new have s0: "s0 = \<lparr>counters = [], N = 0, M = nat \<lceil>1 / err\<rceil>, P = portion\<rparr>"
    by (auto simp: SpaceSaver_new_def split: if_splits)
  then have "length (counters s0) \<le> M s0" "distinct (map fst (counters s0))" by simp_all
  from SpaceSaver_calls_bounded [OF run this] s0 show ?thesis by simp
qed

theorem space_saver_bounded_witness:
  "SpaceSaver_run False (\<lambda>k. 0) sink False (1 / 2) (1 / 2)
     [Put (float_sample 1 1 1), Put (float_sample 2 2 1), Put (float_sample 3 3 1)] [] =
   Inr (\<lparr>counters = [(2, \<lparr>count = 1, error = 0\<rparr>), (3, \<lparr>count = 2, error = 1\<rparr>)],
         N = 3, M = 2, P = 1 / 2\<rparr>, [])
   \<and> M \<lparr>counters = [(2, \<lparr>count = 1, error = 0\<rparr>), (3, \<lparr>count = 2, error = 1\<rparr>)],
         N = 3, M = 2, P = 1 / 2\<rparr> = nat \<lceil>1 / (1 / 2 :: real)\<rceil>
   \<and> length (counters \<lparr>counters = [(2, \<lparr>count = 1, error = 0\<rparr>), (3, \<lparr>count = 2, error = 1\<rparr>)],
         N = 3, M = 2, P = 1 / 2\<rparr>) \<le> 2"
proof -
  have run: "SpaceSaver_run False (\<lambda>k. 0) sink False (1 / 2) (1 / 2)
     [Put (float_sample 1 1 1), Put (float_sample 2 2 1), Put (float_sample 3 3 1)] [] =
   Inr (\<lparr>counters = [(2, \<lparr>count = 1, error = 0\<rparr>), (3, \<lparr>count = 2, error = 1\<rparr>)],
         N = 3, M = 2, P = 1 / 2\<rparr>, [])"
    by (simp add: SpaceSaver_run_def SpaceSaver_new_def SpaceSaver_call_def SpaceSaver_put_def
      Let_def float_sample_def EMPTY_def AKU_PAYLOAD_FLOAT_def
      PARAMID_BIT_def TIMESTAMP_BIT_def FLOAT_BIT_def)
  from space_saver_bounded [OF run] run show ?thesis by simp
qed

section \<open>Space-Saving: the report\<close>

lemma SpaceSaver_count_accepts:
  "accepts nxt \<Longrightarrow>
   SpaceSaver_count uninit nxt (ss, n) =
     (True, ss\<lparr>counters := []\<rparr>, deliver nxt (count_samples uninit ss) n)"
  by (simp add: SpaceSaver_count_def put_each_accepts)

lemma sorted_count_samples:
  "sorted_wrt (\<lambda>a b. float64 (payload b) \<le> float64 (payload a)) (count_samples uninit ss)"
proof -
  have "sorted (map (\<lambda>s. - float64 (payload s)) (count_samples uninit ss))"
    by (simp add: count_samples_def Let_def)
  then show ?thesis by (simp add: sorted_map)
qed

text \<open>The sample of an entry: its series, its count as the value, and the two type bits.\<close>

lemma count_sample_fields:
  "timestamp (count_sample uninit entry) = uninit (fst entry)
   \<and> paramid (count_sample uninit entry) = fst entry
   \<and> float64 (payload (count_sample uninit entry)) = count (snd entry)
   \<and> ptype (payload (count_sample uninit entry)) = PARAMID_BIT OR FLOAT_BIT"
  by (simp add: count_sample_def)

text \<open>A refusal ends \<^verbatim>\<open>count\<close> before \<^verbatim>\<open>counters_.clear()\<close>: the node is unchanged.\<close>

lemma SpaceSaver_count_refused:
  assumes "count_samples uninit ss = pre @ x # post"
    and "\<forall>i<length pre. fst (node_put nxt (pre ! i)
                                (fold (\<lambda>s m. snd (node_put nxt s m)) (take i pre) n))"
    and "\<not> fst (node_put nxt x (fold (\<lambda>s m. snd (node_put nxt s m)) pre n))"
  shows "SpaceSaver_count uninit nxt (ss, n) =
           (False, ss, snd (node_put nxt x (fold (\<lambda>s m. snd (node_put nxt s m)) pre n)))"
  using put_each_refused [OF assms(2,3), of post] assms(1)
  by (simp add: SpaceSaver_count_def)

text \<open>
  With a successor that accepts every sample, an empty sentinel or \<^verbatim>\<open>complete\<close> hands over
  the sample of exactly the entries with \<open>N * P < count - error\<close>, in descending order of
  count, and clears the map; \<open>N\<close> keeps its value.
\<close>

lemma SpaceSaver_count_report:
  assumes "accepts nxt" and "ptype (payload e) = EMPTY"
  shows "SpaceSaver_put weighted uninit nxt e (ss, n) =
           Inr (True, ss\<lparr>counters := []\<rparr>, deliver nxt (count_samples uninit ss) n)
       \<and> SpaceSaver_complete uninit nxt (ss, n) =
           (ss\<lparr>counters := []\<rparr>, node_complete nxt (deliver nxt (count_samples uninit ss) n))
       \<and> set (count_samples uninit ss) =
           count_sample uninit `
             {entry \<in> set (counters ss). N ss * P ss < count (snd entry) - error (snd entry)}
       \<and> length (count_samples uninit ss) =
           length (filter (\<lambda>entry. N ss * P ss < count (snd entry) - error (snd entry))
                     (counters ss))
       \<and> sorted_wrt (\<lambda>a b. float64 (payload b) \<le> float64 (payload a)) (count_samples uninit ss)
       \<and> N (ss\<lparr>counters := []\<rparr>) = N ss"
proof -
  have "SpaceSaver_put weighted uninit nxt e (ss, n) =
           Inr (True, ss\<lparr>counters := []\<rparr>, deliver nxt (count_samples uninit ss) n)"
    using assms by (simp add: SpaceSaver_put_def SpaceSaver_count_accepts)
  moreover have "SpaceSaver_complete uninit nxt (ss, n) =
           (ss\<lparr>counters := []\<rparr>, node_complete nxt (deliver nxt (count_samples uninit ss) n))"
    using assms(1) by (simp add: SpaceSaver_complete_def SpaceSaver_count_accepts)
  moreover have "set (count_samples uninit ss) =
           count_sample uninit `
             {entry \<in> set (counters ss). N ss * P ss < count (snd entry) - error (snd entry)}"
    by (simp add: count_samples_def Let_def)
  moreover have "length (count_samples uninit ss) =
           length (filter (\<lambda>entry. N ss * P ss < count (snd entry) - error (snd entry))
                     (counters ss))"
    by (simp add: count_samples_def Let_def)
  ultimately show ?thesis using sorted_count_samples by simp
qed

lemma count_samples_bucket_example:
  "count_samples (\<lambda>k. 0) bucket_example =
     [count_sample (\<lambda>k. 0) (2, \<lparr>count = 5, error = 0\<rparr>),
      count_sample (\<lambda>k. 0) (1, \<lparr>count = 3, error = 0\<rparr>)]"
  by (simp add: count_samples_def bucket_example_def count_sample_def)

lemma SpaceSaver_count_report_example:
  "accepts sink \<and> ptype (payload (sentinel 10)) = EMPTY
   \<and> SpaceSaver_put False (\<lambda>k. 0) sink (sentinel 10) (bucket_example, []) =
       Inr (True, bucket_example\<lparr>counters := []\<rparr>,
            [EvPut (count_sample (\<lambda>k. 0) (2, \<lparr>count = 5, error = 0\<rparr>)),
             EvPut (count_sample (\<lambda>k. 0) (1, \<lparr>count = 3, error = 0\<rparr>))])
   \<and> SpaceSaver_complete (\<lambda>k. 0) sink (bucket_example, []) =
       (bucket_example\<lparr>counters := []\<rparr>,
        [EvPut (count_sample (\<lambda>k. 0) (2, \<lparr>count = 5, error = 0\<rparr>)),
         EvPut (count_sample (\<lambda>k. 0) (1, \<lparr>count = 3, error = 0\<rparr>)), EvComplete])
   \<and> N (bucket_example\<lparr>counters := []\<rparr>) = 9"
  using SpaceSaver_count_report [OF accepts_sink sentinel_EMPTY, of False "\<lambda>k. 0" 10
      bucket_example "[]"]
  by (simp add: accepts_sink sentinel_EMPTY count_samples_bucket_example deliver_sink
      node_complete_sink) (simp add: bucket_example_def)

text \<open>
  C2, on the code.  A frequent-items node with error 1 / 2 and portion 1 / 2 sees series 7
  once in each of two buckets.  The first flush reports it and clears the map, but \<open>N\<close> is
  1 after it and not 0.  At the second flush \<open>N\<close> is 2, the threshold is 2 * (1 / 2), and
  the only series of the bucket, with count 1, is not reported: the sink has received the
  sample of the first flush and nothing else.
\<close>

theorem space_saver_weight_not_cleared:
  "SpaceSaver_run False (\<lambda>k. 0) sink False (1 / 2) (1 / 2)
     [Put (float_sample 7 3 1), Put (sentinel 10)] [] =
   Inr (\<lparr>counters = [], N = 1, M = 2, P = 1 / 2\<rparr>,
        [EvPut \<lparr>timestamp = 0, paramid = 7, payload = \<lparr>float64 = 1, ptype = 17\<rparr>\<rparr>])
   \<and> SpaceSaver_run False (\<lambda>k. 0) sink False (1 / 2) (1 / 2)
     [Put (float_sample 7 3 1), Put (sentinel 10), Put (float_sample 7 12 1), Put (sentinel 20)] [] =
   Inr (\<lparr>counters = [], N = 2, M = 2, P = 1 / 2\<rparr>,
        [EvPut \<lparr>timestamp = 0, paramid = 7, payload = \<lparr>float64 = 1, ptype = 17\<rparr>\<rparr>])"
  by (simp add: SpaceSaver_run_def SpaceSaver_new_def SpaceSaver_call_def SpaceSaver_put_def
      SpaceSaver_count_def count_samples_def count_sample_def sink_def
      float_sample_def sentinel_def EMPTY_SAMPLE_def EMPTY_def AKU_PAYLOAD_FLOAT_def
      PARAMID_BIT_def TIMESTAMP_BIT_def FLOAT_BIT_def)

text \<open>
  The value of a reported sample is the count of the entry, not its estimate: after an
  eviction the entry of series 5 has count 2 and error 1, and the sample carries 2.
\<close>

lemma space_saver_report_after_eviction:
  "SpaceSaver_run False (\<lambda>k. 0) sink False 1 (3 / 8)
     [Put (float_sample 4 2 1), Put (float_sample 5 3 1), Put (sentinel 10)] [] =
   Inr (\<lparr>counters = [], N = 2, M = 1, P = 3 / 8\<rparr>,
        [EvPut \<lparr>timestamp = 0, paramid = 5, payload = \<lparr>float64 = 2, ptype = 17\<rparr>\<rparr>])"
  by (simp add: SpaceSaver_run_def SpaceSaver_new_def SpaceSaver_call_def SpaceSaver_put_def
      SpaceSaver_count_def count_samples_def count_sample_def sink_def Let_def
      float_sample_def sentinel_def EMPTY_SAMPLE_def EMPTY_def AKU_PAYLOAD_FLOAT_def
      PARAMID_BIT_def TIMESTAMP_BIT_def FLOAT_BIT_def)

section \<open>Space-Saving: eviction\<close>

text \<open>
  When every count is a whole number, as in frequent-items where each weight is 1, the
  search ends with the least count, not truncated, and with an entry that has it.
\<close>

lemma find_min_whole:
  assumes "\<forall>e\<in>set cs. \<exists>c::nat. count (snd e) = real c"
    and "find_min cs mn it = Inr (mn', it')"
  shows "mn' \<le> mn \<and> (\<forall>e\<in>set cs. real mn' \<le> count (snd e))
       \<and> ((mn' = mn \<and> it' = it)
           \<or> (\<exists>e\<in>set cs. it' = Some (fst e) \<and> count (snd e) = real mn'))"
  using assms
proof (induction cs arbitrary: mn it)
  case Nil
  then show ?case by simp
next
  case (Cons e cs)
  obtain k item where e: "e = (k, item)" by (cases e)
  from Cons.prems(1) e obtain c :: nat where c: "count item = real c" by auto
  from Cons.prems(1) have rest: "\<forall>e\<in>set cs. \<exists>c::nat. count (snd e) = real c" by simp
  show ?case
  proof (cases "count item < real mn")
    case True
    with c have cm: "c < mn" by simp
    from c have fl: "nat \<lfloor>count item\<rfloor> = c" by simp
    from True c Cons.prems(2) e fl
    have rec: "find_min cs c (Some k) = Inr (mn', it')" by (simp split: if_splits)
    from Cons.IH [OF rest rec]
    have ih: "mn' \<le> c" "\<forall>e\<in>set cs. real mn' \<le> count (snd e)"
      "(mn' = c \<and> it' = Some k) \<or> (\<exists>e\<in>set cs. it' = Some (fst e) \<and> count (snd e) = real mn')"
      by simp_all
    from ih(1) cm have "mn' \<le> mn" by simp
    moreover from ih(1,2) c e have "\<forall>e'\<in>set (e # cs). real mn' \<le> count (snd e')" by simp
    moreover from ih(3) c e
    have "\<exists>e'\<in>set (e # cs). it' = Some (fst e') \<and> count (snd e') = real mn'" by auto
    ultimately show ?thesis by blast
  next
    case False
    with Cons.prems(2) e have rec: "find_min cs mn it = Inr (mn', it')" by simp
    from Cons.IH [OF rest rec]
    have ih: "mn' \<le> mn" "\<forall>e\<in>set cs. real mn' \<le> count (snd e)"
      "(mn' = mn \<and> it' = it) \<or> (\<exists>e\<in>set cs. it' = Some (fst e) \<and> count (snd e) = real mn')"
      by simp_all
    from False ih(1) have "real mn' \<le> count item" by simp
    with ih e show ?thesis by auto
  qed
qed

text \<open>
  C5, on the code.  A heavy-hitters node of capacity 1 holds series 1 with count 5 / 2;
  a sample of series 2 with weight 1 evicts it, and the new entry has count 3 and error 2:
  the count of the evicted entry went through the \<^verbatim>\<open>size_t\<close> variable \<^verbatim>\<open>min\<close> and lost its
  fraction.
\<close>

theorem space_saver_eviction_truncates:
  "SpaceSaver_run True (\<lambda>k. 0) sink False 1 (1 / 2)
     [Put (float_sample 1 1 (5 / 2)), Put (float_sample 2 2 1)] [] =
   Inr (\<lparr>counters = [(2, \<lparr>count = 3, error = 2\<rparr>)], N = 7 / 2, M = 1, P = 1 / 2\<rparr>, [])"
  by (simp add: SpaceSaver_run_def SpaceSaver_new_def SpaceSaver_call_def SpaceSaver_put_def
      Let_def float_sample_def EMPTY_def AKU_PAYLOAD_FLOAT_def
      PARAMID_BIT_def TIMESTAMP_BIT_def FLOAT_BIT_def)

section \<open>Node builder\<close>

lemma ptree_get_default_absent_or_bad:
  "absent_or_bad conv pt key \<Longrightarrow> ptree_get_default conv pt key dflt = dflt"
  by (auto simp: absent_or_bad_def ptree_get_default_def split: option.splits)

lemma make_sampler_body_thrown:
  assumes "make_sampler_body cv pt = Inl ex"
  shows "ex = Ptree_error \<or> ex = Bad_lexical_cast
       \<or> ex = NodeException Node_RandomSampler ''invalid sampler description, unknown algorithm''
       \<or> (map_of pt ''name'' = Some ''anomaly-detector''
           \<and> (ex = QueryParserError ''Unknown forecasting method''
               \<or> ex = Thrown_literal ''Not implemented''))"
  using assms
  by (auto simp: make_sampler_body_def and_then_def ptree_get_def lexical_cast_def
      ptree_get_as_def parse_anomaly_detector_type_def Let_def
      split: option.splits if_splits sum.splits)

text \<open>
  What \<^verbatim>\<open>make_sampler\<close> throws: a \<^verbatim>\<open>NodeException\<close> with the tag \<^verbatim>\<open>RandomSampler\<close>, or, for
  an anomaly detector only, the \<^verbatim>\<open>QueryParserError\<close> of an unknown method or the string
  thrown for Holt-Winters.  A missing or unknown name, a missing parameter and a required
  number that does not convert each raise the \<^verbatim>\<open>NodeException\<close>.
\<close>

lemma make_sampler_errors:
  "(make_sampler cv pt = Inl ex \<longrightarrow>
      (\<exists>msg. ex = NodeException Node_RandomSampler msg)
      \<or> (map_of pt ''name'' = Some ''anomaly-detector''
          \<and> (ex = QueryParserError ''Unknown forecasting method''
              \<or> ex = Thrown_literal ''Not implemented'')))
   \<and> (map_of pt ''name'' = None \<longrightarrow>
      make_sampler cv pt = Inl (NodeException Node_RandomSampler ''invalid sampler description''))
   \<and> (map_of pt ''name'' = Some name \<and> tag_of_name name = None \<longrightarrow>
      make_sampler cv pt =
        Inl (NodeException Node_RandomSampler ''invalid sampler description, unknown algorithm''))
   \<and> (map_of pt ''name'' = Some ''reservoir'' \<and> map_of pt ''size'' = None \<longrightarrow>
      make_sampler cv pt = Inl (NodeException Node_RandomSampler ''invalid sampler description''))
   \<and> (map_of pt ''name'' = Some ''reservoir'' \<and> map_of pt ''size'' = Some s
        \<and> lexical_uint32 cv s = None \<longrightarrow>
      make_sampler cv pt =
        Inl (NodeException Node_RandomSampler
               ''invalid sampler description, valid integer expected''))
   \<and> (map_of pt ''name'' = Some kind \<and> tag_of_name kind = Some Node_SpaceSaver
        \<and> (map_of pt ''error'' = None \<or> map_of pt ''portion'' = None) \<longrightarrow>
      make_sampler cv pt = Inl (NodeException Node_RandomSampler ''invalid sampler description''))
   \<and> (map_of pt ''name'' = Some kind \<and> tag_of_name kind = Some Node_SpaceSaver
        \<and> map_of pt ''error'' = Some se \<and> map_of pt ''portion'' = Some sp
        \<and> (lexical_double cv se = None \<or> lexical_double cv sp = None) \<longrightarrow>
      make_sampler cv pt =
        Inl (NodeException Node_RandomSampler
               ''invalid sampler description, valid integer expected''))
   \<and> (map_of pt ''name'' = Some ''anomaly-detector''
        \<and> (absent_or_bad (stream_double cv) pt ''threshold''
            \<or> absent_or_bad (stream_bool cv) pt ''approx''
            \<or> map_of pt ''method'' = None) \<longrightarrow>
      make_sampler cv pt = Inl (NodeException Node_RandomSampler ''invalid sampler description''))
   \<and> (map_of pt ''name'' = Some ''anomaly-detector''
        \<and> \<not> absent_or_bad (stream_double cv) pt ''threshold''
        \<and> \<not> absent_or_bad (stream_bool cv) pt ''approx''
        \<and> map_of pt ''method'' = Some m \<and> (m = ''sma'' \<or> m = ''ewma'')
        \<and> absent_or_bad (stream_uint32 cv) pt ''window'' \<longrightarrow>
      make_sampler cv pt = Inl (NodeException Node_RandomSampler ''invalid sampler description''))
   \<and> (map_of pt ''name'' = Some ''anomaly-detector''
        \<and> ptree_get_as (stream_double cv) pt ''threshold'' = Inr th
        \<and> parse_anomaly_detector_type cv pt = Inr method
        \<and> method \<in> {SMA, SMA_SKETCH, EWMA, EWMA_SKETCH}
        \<and> ptree_get_as (stream_uint32 cv) pt ''window'' = Inr window
        \<and> absent_or_bad (stream_uint32 cv) pt ''bits''
        \<and> absent_or_bad (stream_uint32 cv) pt ''hashes'' \<longrightarrow>
      make_sampler cv pt = Inr (New_AnomalyDetector 3 10 th window method))"
proof -
  have a: "make_sampler cv pt = Inl ex \<longrightarrow>
      (\<exists>msg. ex = NodeException Node_RandomSampler msg)
      \<or> (map_of pt ''name'' = Some ''anomaly-detector''
          \<and> (ex = QueryParserError ''Unknown forecasting method''
              \<or> ex = Thrown_literal ''Not implemented''))"
  proof
    assume m: "make_sampler cv pt = Inl ex"
    then obtain ex0 where b: "make_sampler_body cv pt = Inl ex0"
      by (auto simp: make_sampler_def split: sum.splits)
    from make_sampler_body_thrown [OF b] m b
    show "(\<exists>msg. ex = NodeException Node_RandomSampler msg)
      \<or> (map_of pt ''name'' = Some ''anomaly-detector''
          \<and> (ex = QueryParserError ''Unknown forecasting method''
              \<or> ex = Thrown_literal ''Not implemented''))"
      by (auto simp: make_sampler_def)
  qed
  have b: "map_of pt ''name'' = None \<longrightarrow>
      make_sampler cv pt = Inl (NodeException Node_RandomSampler ''invalid sampler description'')"
    by (simp add: make_sampler_def make_sampler_body_def and_then_def ptree_get_def)
  have c: "map_of pt ''name'' = Some name \<and> tag_of_name name = None \<longrightarrow>
      make_sampler cv pt =
        Inl (NodeException Node_RandomSampler ''invalid sampler description, unknown algorithm'')"
    by (auto simp: make_sampler_def make_sampler_body_def and_then_def ptree_get_def
        tag_of_name_def split: if_splits)
  have d: "map_of pt ''name'' = Some ''reservoir'' \<and> map_of pt ''size'' = None \<longrightarrow>
      make_sampler cv pt = Inl (NodeException Node_RandomSampler ''invalid sampler description'')"
    by (simp add: make_sampler_def make_sampler_body_def and_then_def ptree_get_def)
  have e: "map_of pt ''name'' = Some ''reservoir'' \<and> map_of pt ''size'' = Some s
        \<and> lexical_uint32 cv s = None \<longrightarrow>
      make_sampler cv pt =
        Inl (NodeException Node_RandomSampler
               ''invalid sampler description, valid integer expected'')"
    by (simp add: make_sampler_def make_sampler_body_def and_then_def ptree_get_def
        lexical_cast_def)
  have f: "map_of pt ''name'' = Some kind \<and> tag_of_name kind = Some Node_SpaceSaver
        \<and> (map_of pt ''error'' = None \<or> map_of pt ''portion'' = None) \<longrightarrow>
      make_sampler cv pt = Inl (NodeException Node_RandomSampler ''invalid sampler description'')"
    by (auto simp: make_sampler_def make_sampler_body_def and_then_def ptree_get_def
        tag_of_name_def split: if_splits option.splits)
  have g: "map_of pt ''name'' = Some kind \<and> tag_of_name kind = Some Node_SpaceSaver
        \<and> map_of pt ''error'' = Some se \<and> map_of pt ''portion'' = Some sp
        \<and> (lexical_double cv se = None \<or> lexical_double cv sp = None) \<longrightarrow>
      make_sampler cv pt =
        Inl (NodeException Node_RandomSampler
               ''invalid sampler description, valid integer expected'')"
    by (auto simp: make_sampler_def make_sampler_body_def and_then_def ptree_get_def
        lexical_cast_def tag_of_name_def split: if_splits option.splits)
  have h: "map_of pt ''name'' = Some ''anomaly-detector''
        \<and> (absent_or_bad (stream_double cv) pt ''threshold''
            \<or> absent_or_bad (stream_bool cv) pt ''approx''
            \<or> map_of pt ''method'' = None) \<longrightarrow>
      make_sampler cv pt = Inl (NodeException Node_RandomSampler ''invalid sampler description'')"
    by (auto simp: make_sampler_def make_sampler_body_def and_then_def ptree_get_def
        ptree_get_as_def absent_or_bad_def parse_anomaly_detector_type_def
        split: option.splits)
  have i: "map_of pt ''name'' = Some ''anomaly-detector''
        \<and> \<not> absent_or_bad (stream_double cv) pt ''threshold''
        \<and> \<not> absent_or_bad (stream_bool cv) pt ''approx''
        \<and> map_of pt ''method'' = Some m \<and> (m = ''sma'' \<or> m = ''ewma'')
        \<and> absent_or_bad (stream_uint32 cv) pt ''window'' \<longrightarrow>
      make_sampler cv pt = Inl (NodeException Node_RandomSampler ''invalid sampler description'')"
    by (auto simp: make_sampler_def make_sampler_body_def and_then_def ptree_get_def
        ptree_get_as_def absent_or_bad_def parse_anomaly_detector_type_def Let_def
        split: option.splits)
  have j: "map_of pt ''name'' = Some ''anomaly-detector''
        \<and> ptree_get_as (stream_double cv) pt ''threshold'' = Inr th
        \<and> parse_anomaly_detector_type cv pt = Inr method
        \<and> method \<in> {SMA, SMA_SKETCH, EWMA, EWMA_SKETCH}
        \<and> ptree_get_as (stream_uint32 cv) pt ''window'' = Inr window
        \<and> absent_or_bad (stream_uint32 cv) pt ''bits''
        \<and> absent_or_bad (stream_uint32 cv) pt ''hashes'' \<longrightarrow>
      make_sampler cv pt = Inr (New_AnomalyDetector 3 10 th window method)"
    by (simp add: make_sampler_def make_sampler_body_def and_then_def ptree_get_def
        ptree_get_default_absent_or_bad Let_def)
  from a b c d e f g h i j show ?thesis by blast
qed

lemma make_sampler_error_examples:
  "make_sampler example_conversions [(''name'', ''reservoir''), (''size'', ''many'')] =
     Inl (NodeException Node_RandomSampler ''invalid sampler description, valid integer expected'')
   \<and> make_sampler example_conversions [(''size'', ''1000'')] =
     Inl (NodeException Node_RandomSampler ''invalid sampler description'')
   \<and> make_sampler example_conversions [(''name'', ''median-of-medians'')] =
     Inl (NodeException Node_RandomSampler ''invalid sampler description, unknown algorithm'')
   \<and> make_sampler example_conversions [(''name'', ''heavy-hitters''), (''error'', ''0.01'')] =
     Inl (NodeException Node_RandomSampler ''invalid sampler description'')"
proof -
  have "lexical_uint32 example_conversions ''many'' = None"
    by (simp add: example_conversions_def)
  moreover have "tag_of_name ''median-of-medians'' = None"
    by (simp add: tag_of_name_def)
  moreover have "tag_of_name ''heavy-hitters'' = Some Node_SpaceSaver"
    by (simp add: tag_of_name_def)
  ultimately show ?thesis
    using make_sampler_errors [of example_conversions
        "[(''name'', ''reservoir''), (''size'', ''many'')]" _ _ "''many''"]
      make_sampler_errors [of example_conversions "[(''size'', ''1000'')]"]
      make_sampler_errors [of example_conversions "[(''name'', ''median-of-medians'')]" _
        "''median-of-medians''"]
      make_sampler_errors [of example_conversions
        "[(''name'', ''heavy-hitters''), (''error'', ''0.01'')]" _ _ _ "''heavy-hitters''"]
    by simp
qed

text \<open>
  C9, on the code.  A frequent-items description without its portion, a heavy-hitters
  description whose portion does not convert and an anomaly-detector description without
  its threshold each raise a \<^verbatim>\<open>NodeException\<close> whose tag is \<^verbatim>\<open>RandomSampler\<close>, while the nodes
  they name have the tags \<^verbatim>\<open>SpaceSaver\<close> and \<^verbatim>\<open>AnomalyDetector\<close>.
\<close>

theorem make_sampler_wrong_tag:
  "make_sampler example_conversions [(''name'', ''frequent-items''), (''error'', ''0.01'')] =
     Inl (NodeException Node_RandomSampler ''invalid sampler description'')
   \<and> tag_of_name ''frequent-items'' = Some Node_SpaceSaver
   \<and> make_sampler example_conversions
       [(''name'', ''heavy-hitters''), (''error'', ''0.01''), (''portion'', ''much'')] =
     Inl (NodeException Node_RandomSampler
            ''invalid sampler description, valid integer expected'')
   \<and> tag_of_name ''heavy-hitters'' = Some Node_SpaceSaver
   \<and> make_sampler example_conversions
       [(''name'', ''anomaly-detector''), (''method'', ''ewma''), (''approx'', ''true'')] =
     Inl (NodeException Node_RandomSampler ''invalid sampler description'')
   \<and> tag_of_name ''anomaly-detector'' = Some Node_AnomalyDetector
   \<and> Node_RandomSampler \<noteq> Node_SpaceSaver
   \<and> Node_RandomSampler \<noteq> Node_AnomalyDetector"
  by (simp add: make_sampler_def make_sampler_body_def and_then_def ptree_get_def
      ptree_get_as_def lexical_cast_def tag_of_name_def example_conversions_def)

text \<open>
  The exceptions of an anomaly detector that are no \<^verbatim>\<open>NodeException\<close>, and the defaults of
  \<^verbatim>\<open>hashes\<close> and \<^verbatim>\<open>bits\<close>, which also stand in for data that does not convert.
\<close>

lemma make_sampler_unknown_method:
  assumes "map_of pt ''name'' = Some ''anomaly-detector''"
    and "\<not> absent_or_bad (stream_double cv) pt ''threshold''"
    and "\<not> absent_or_bad (stream_bool cv) pt ''approx''"
    and "map_of pt ''method'' = Some m"
    and "m \<noteq> ''ewma''" and "m \<noteq> ''sma''" and "m \<noteq> ''double-hw''"
  shows "make_sampler cv pt = Inl (QueryParserError ''Unknown forecasting method'')"
  using assms
  by (auto simp: make_sampler_def make_sampler_body_def and_then_def ptree_get_def
      ptree_get_as_def absent_or_bad_def parse_anomaly_detector_type_def
      split: option.splits)

lemma make_sampler_double_hw:
  assumes "map_of pt ''name'' = Some ''anomaly-detector''"
    and "\<not> absent_or_bad (stream_double cv) pt ''threshold''"
    and "\<not> absent_or_bad (stream_bool cv) pt ''approx''"
    and "map_of pt ''method'' = Some ''double-hw''"
  shows "make_sampler cv pt = Inl (Thrown_literal ''Not implemented'')"
  using assms
  by (auto simp: make_sampler_def make_sampler_body_def and_then_def ptree_get_def
      ptree_get_as_def absent_or_bad_def parse_anomaly_detector_type_def
      split: option.splits)

lemma make_sampler_sliding_window:
  assumes "map_of pt ''name'' = Some ''anomaly-detector''"
    and "ptree_get_as (stream_double cv) pt ''threshold'' = Inr th"
    and "parse_anomaly_detector_type cv pt = Inr method"
    and "method \<in> {SMA, SMA_SKETCH, EWMA, EWMA_SKETCH}"
    and "ptree_get_as (stream_uint32 cv) pt ''window'' = Inr window"
  shows "make_sampler cv pt =
           Inr (New_AnomalyDetector
                  (case map_of pt ''hashes'' of None \<Rightarrow> 3
                   | Some s \<Rightarrow> (case stream_uint32 cv s of None \<Rightarrow> 3 | Some v \<Rightarrow> v))
                  (case map_of pt ''bits'' of None \<Rightarrow> 10
                   | Some s \<Rightarrow> (case stream_uint32 cv s of None \<Rightarrow> 10 | Some v \<Rightarrow> v))
                  th window method)"
  using assms
  by (simp add: make_sampler_def make_sampler_body_def and_then_def ptree_get_def
      ptree_get_default_def Let_def)

lemma make_sampler_other_examples:
  "make_sampler example_conversions
       [(''name'', ''anomaly-detector''), (''threshold'', ''0.95''), (''approx'', ''false''),
        (''method'', ''median'')] =
     Inl (QueryParserError ''Unknown forecasting method'')
   \<and> make_sampler example_conversions
       [(''name'', ''anomaly-detector''), (''threshold'', ''0.95''), (''approx'', ''false''),
        (''method'', ''double-hw'')] =
     Inl (Thrown_literal ''Not implemented'')
   \<and> make_sampler example_conversions
       [(''name'', ''anomaly-detector''), (''threshold'', ''0.95''), (''approx'', ''true''),
        (''method'', ''ewma''), (''window'', ''20''), (''bits'', ''many'')] =
     Inr (New_AnomalyDetector 3 10 (95 / 100) 20 EWMA_SKETCH)"
  by (simp add: make_sampler_def make_sampler_body_def and_then_def ptree_get_def
      ptree_get_as_def ptree_get_default_def parse_anomaly_detector_type_def
      example_conversions_def)

text \<open>The fragments of the spec that the example conversions cover are accepted.\<close>

lemma make_sampler_accepts_examples:
  "make_sampler example_conversions [(''name'', ''reservoir''), (''size'', ''1000'')] =
     Inr (New_RandomSamplingNode 1000)
   \<and> make_sampler example_conversions [(''name'', ''moving-average'')] = Inr New_MovingAverage
   \<and> make_sampler example_conversions
       [(''name'', ''frequent-items''), (''error'', ''0.01''), (''portion'', ''0.1'')] =
     Inr (New_SpaceSaver False (1 / 100) (1 / 10))
   \<and> make_sampler example_conversions
       [(''name'', ''anomaly-detector''), (''method'', ''ewma''), (''approx'', ''true''),
        (''threshold'', ''0.95''), (''window'', ''20'')] =
     Inr (New_AnomalyDetector 3 10 (95 / 100) 20 EWMA_SKETCH)"
  by (simp add: make_sampler_def make_sampler_body_def and_then_def ptree_get_def
      ptree_get_as_def ptree_get_default_def lexical_cast_def parse_anomaly_detector_type_def
      example_conversions_def)

end
